theory Spec2Isabelle
  imports Main "HOL-Library.Product_Lexorder"
begin

section \<open>Data model (internal/models/models.go)\<close>

text \<open>
  A \<open>time.Time\<close> is modelled as an integer number of nanoseconds counted from the zero
  value \<open>time.Time{}\<close>, so the zero value is \<open>0\<close>. Every call of \<open>time.Now()\<close> in the
  source becomes an explicit argument of the function that makes the call.
  A \<open>time.Duration\<close> is a signed 64-bit count of nanoseconds.
\<close>

type_synonym Time = int
type_synonym Duration = int

definition Second :: Duration where
  "Second = 1000000000"

definition Minute :: Duration where
  "Minute = 60 * Second"

definition maxDuration :: Duration where
  "maxDuration = 2 ^ 63 - 1"

definition minDuration :: Duration where
  "minDuration = - (2 ^ 63)"

text \<open>\<open>Time.Sub\<close> saturates at the largest and smallest \<open>Duration\<close>.\<close>

definition Sub :: "Time \<Rightarrow> Time \<Rightarrow> Duration" where
  "Sub t u =
     (let d = t - u
      in if d > maxDuration then maxDuration
         else if d < minDuration then minDuration
         else d)"

text \<open>
  Go's \<open>int\<close> is taken as the 64-bit signed integer of the usual targets; \<open>wrap64\<close> is the
  value a 64-bit register holds after an arithmetic result \<open>n\<close>.
\<close>

definition wrap64 :: "int \<Rightarrow> int" where
  "wrap64 n = (n + 2 ^ 63) mod 2 ^ 64 - 2 ^ 63"

definition StatusPending :: string where "StatusPending = ''pending''"
definition StatusRunning :: string where "StatusRunning = ''running''"
definition StatusDone :: string where "StatusDone = ''done''"
definition StatusFailed :: string where "StatusFailed = ''failed''"

record Job =
  ID :: string
  TenantID :: string
  Payload :: string
  Status :: string
  IdempotencyKey :: string
  RetryCount :: int
  MaxRetries :: int
  CreatedAt :: Time
  UpdatedAt :: Time
  LeasedUntil :: "Time option"
  ErrorMessage :: string
  TraceID :: string

record Metrics =
  TotalJobs :: int
  PendingJobs :: int
  RunningJobs :: int
  CompletedJobs :: int
  FailedJobs :: int
  DLQJobs :: int
  TotalRetries :: int

text \<open>The fields of \<open>JobSubmitRequest\<close> carry the prefix \<open>req_\<close>, since \<open>Job\<close> has the same names.\<close>

record JobSubmitRequest =
  req_TenantID :: string
  req_Payload :: string
  req_IdempotencyKey :: string
  req_MaxRetries :: int

section \<open>The job store (internal/database/database.go)\<close>

text \<open>
  One row of table \<open>jobs\<close>, with the column names of \<open>InitSchema\<close> (column \<open>id\<close> is
  \<open>row_id\<close> here). The columns \<open>idempotency_key\<close>, \<open>leased_until\<close> and \<open>error_message\<close>
  hold SQL NULL in the source, which is \<open>None\<close>. The columns \<open>retry_count\<close> and \<open>max_retries\<close>
  are always written by \<open>InsertJob\<close>, so they are never NULL.
\<close>

record row =
  row_id :: string
  tenant_id :: string
  payload :: string
  status :: string
  idempotency_key :: "string option"
  retry_count :: int
  max_retries :: int
  created_at :: Time
  updated_at :: Time
  leased_until :: "Time option"
  error_message :: "string option"
  trace_id :: string

text \<open>
  The database handle: the rows of table \<open>jobs\<close>, and the error that the driver
  returns when the store is failing (a locked database file, a closed handle), \<open>None\<close>
  for a working store. On a failing store every \<open>Exec\<close> and every \<open>QueryRow\<close> scan of
  the functions below returns that error.
\<close>

record DB =
  jobs :: "row list"
  fault :: "string option"

datatype db_error = ErrNoRows | DriverError string

definition nullString :: "string \<Rightarrow> string option" where
  "nullString s = (if s = '''' then None else Some s)"

text \<open>
  The scan of one selected row into a \<open>models.Job\<close> in \<open>GetJobByID\<close>: a NULL
  column leaves the Go zero value.
\<close>

definition scanJob :: "row \<Rightarrow> Job" where
  "scanJob r =
     \<lparr> ID = row_id r, TenantID = tenant_id r, Payload = payload r, Status = status r,
       IdempotencyKey = (case idempotency_key r of None \<Rightarrow> '''' | Some k \<Rightarrow> k),
       RetryCount = retry_count r, MaxRetries = max_retries r,
       CreatedAt = created_at r, UpdatedAt = updated_at r,
       LeasedUntil = leased_until r,
       ErrorMessage = (case error_message r of None \<Rightarrow> '''' | Some m \<Rightarrow> m),
       TraceID = trace_id r \<rparr>"

text \<open>
  \<open>InsertJob\<close>: the INSERT names ten columns, so \<open>leased_until\<close> and \<open>error_message\<close> are
  NULL in the new row \<open>insert_row\<close>. Column \<open>id\<close> is the PRIMARY KEY: inserting an id that is already
  there fails and changes nothing.
\<close>

definition insert_row :: "Job \<Rightarrow> row" where
  "insert_row job =
     \<lparr> row_id = ID job, tenant_id = TenantID job, payload = Payload job,
       status = Status job,
       idempotency_key = nullString (IdempotencyKey job),
       retry_count = RetryCount job, max_retries = MaxRetries job,
       created_at = CreatedAt job, updated_at = UpdatedAt job,
       leased_until = None, error_message = None,
       trace_id = TraceID job \<rparr>"

definition InsertJob :: "DB \<Rightarrow> Job \<Rightarrow> db_error option \<times> DB" where
  "InsertJob db job =
     (case fault db of
        Some e \<Rightarrow> (Some (DriverError e), db)
      | None \<Rightarrow>
          if ID job \<in> set (map row_id (jobs db))
          then (Some (DriverError ''UNIQUE constraint failed: jobs.id''), db)
          else (None, db\<lparr>jobs := jobs db @ [insert_row job]\<rparr>))"

definition GetJobByID :: "DB \<Rightarrow> string \<Rightarrow> db_error + Job" where
  "GetJobByID db i =
     (case fault db of
        Some e \<Rightarrow> Inl (DriverError e)
      | None \<Rightarrow>
          (case find (\<lambda>r. row_id r = i) (jobs db) of
             None \<Rightarrow> Inl ErrNoRows
           | Some r \<Rightarrow> Inr (scanJob r)))"

definition GetJobByIdempotencyKey :: "DB \<Rightarrow> string \<Rightarrow> db_error + Job" where
  "GetJobByIdempotencyKey db key =
     (case fault db of
        Some e \<Rightarrow> Inl (DriverError e)
      | None \<Rightarrow>
          (case find (\<lambda>r. idempotency_key r = Some key) (jobs db) of
             None \<Rightarrow> Inl ErrNoRows
           | Some r \<Rightarrow> GetJobByID db (row_id r)))"

definition GetRunningJobsCount :: "DB \<Rightarrow> string \<Rightarrow> db_error + int" where
  "GetRunningJobsCount db tenantID =
     (case fault db of
        Some e \<Rightarrow> Inl (DriverError e)
      | None \<Rightarrow>
          Inr (int (length
            (filter (\<lambda>r. tenant_id r = tenantID \<and> status r = StatusRunning) (jobs db)))))"

text \<open>The two UPDATE statements of the outcome path; \<open>now\<close> is their \<open>time.Now()\<close>.\<close>

definition UpdateJobStatus ::
  "DB \<Rightarrow> Time \<Rightarrow> string \<Rightarrow> string \<Rightarrow> string \<Rightarrow> db_error option \<times> DB" where
  "UpdateJobStatus db now jobID st errorMsg =
     (case fault db of
        Some e \<Rightarrow> (Some (DriverError e), db)
      | None \<Rightarrow>
          (None,
           db\<lparr>jobs := map (\<lambda>r. if row_id r = jobID
                                then r\<lparr>status := st, updated_at := now, leased_until := None,
                                       error_message := nullString errorMsg\<rparr>
                                else r) (jobs db)\<rparr>))"

definition UpdateJobForRetry ::
  "DB \<Rightarrow> Time \<Rightarrow> string \<Rightarrow> int \<Rightarrow> string \<Rightarrow> db_error option \<times> DB" where
  "UpdateJobForRetry db now jobID retryCount errorMsg =
     (case fault db of
        Some e \<Rightarrow> (Some (DriverError e), db)
      | None \<Rightarrow>
          (None,
           db\<lparr>jobs := map (\<lambda>r. if row_id r = jobID
                                then r\<lparr>status := StatusFailed, retry_count := retryCount,
                                       updated_at := now, leased_until := None,
                                       error_message := Some errorMsg\<rparr>
                                else r) (jobs db)\<rparr>))"

text \<open>
  How the store sees a time. The driver writes a \<open>time.Time\<close> into a DATETIME column,
  and binds one as a query parameter, as text in the layout
  "2006-01-02 15:04:05.999999999-07:00": the local wall-clock time, then the zone offset
  in hours and minutes. SQLite compares and sorts these texts as strings. Every time value
  of the program comes from \<open>time.Now()\<close>, or from adding a duration to one, so it is in
  the local zone of the process: \<open>loc\<close> gives the offset of that zone east of UTC, in
  seconds, at each instant.

  \<open>stamp loc t\<close> is the sort key of the text written for the instant \<open>t\<close>: for years 0
  to 9999 the string order of the texts is the lexicographic order of their keys. The
  first component is the wall-clock time. The second is the offset text, which Go prints
  from the offset truncated to minutes: a text with "+" sorts before one with "-", and
  within one sign the larger magnitude sorts later.
\<close>

type_synonym Zone = "Time \<Rightarrow> int"

definition offset_key :: "int \<Rightarrow> int \<times> int" where
  "offset_key off = (let m = \<bar>off\<bar> div 60 in if off < 0 \<and> m \<noteq> 0 then (1, m) else (0, m))"

definition stamp :: "Zone \<Rightarrow> Time \<Rightarrow> int \<times> int \<times> int" where
  "stamp loc t = (t + loc t * Second, offset_key (loc t))"

text \<open>
  The WHERE clause of the SELECT in \<open>LeaseJob\<close>. The comparison of \<open>leased_until\<close>
  with the bound \<open>now\<close> is a comparison of the two texts. A comparison with a NULL
  \<open>leased_until\<close> is not true in SQL, so a running row without a lease deadline does not
  match.
\<close>

definition lease_where :: "Zone \<Rightarrow> Time \<Rightarrow> row \<Rightarrow> bool" where
  "lease_where loc now r \<longleftrightarrow>
     status r = StatusPending \<or>
     (status r = StatusRunning \<and>
        (case leased_until r of None \<Rightarrow> False | Some l \<Rightarrow> stamp loc l < stamp loc now)) \<or>
     (status r = StatusFailed \<and> retry_count r < max_retries r)"

text \<open>
  The rows that can come first under ORDER BY \<open>created_at\<close> ASC: those whose
  \<open>created_at\<close> text is not above that of any other row of the list.
\<close>

definition oldest_rows :: "Zone \<Rightarrow> row list \<Rightarrow> row list" where
  "oldest_rows loc rs =
     filter (\<lambda>r. list_all (\<lambda>x. stamp loc (created_at r) \<le> stamp loc (created_at x)) rs) rs"

text \<open>
  \<open>LeaseJob\<close>: one transaction that selects, with LIMIT 1, a matching row that comes
  first in ascending order of the \<open>created_at\<close> text, and updates the rows with its id.
  Which of several rows with equal \<open>created_at\<close> text SQLite returns is not specified:
  \<open>tie\<close> stands for that choice, and every value of it picks one of them. \<open>now\<close> is
  the \<open>time.Now()\<close> read inside \<open>LeaseJob\<close>. The returned \<open>models.Job\<close> is
  \<open>leased_job\<close>: it has only the eight fields the source sets, the others are zero
  values. On any error the deferred rollback leaves the table as it was.
\<close>

definition leased_job :: "row \<Rightarrow> Time \<Rightarrow> Job" where
  "leased_job r leaseUntil =
     \<lparr> ID = row_id r, TenantID = tenant_id r, Payload = payload r,
       Status = StatusRunning, IdempotencyKey = '''',
       RetryCount = retry_count r, MaxRetries = max_retries r,
       CreatedAt = 0, UpdatedAt = 0,
       LeasedUntil = Some leaseUntil, ErrorMessage = '''',
       TraceID = trace_id r \<rparr>"

definition LeaseJob :: "Zone \<Rightarrow> nat \<Rightarrow> DB \<Rightarrow> Time \<Rightarrow> Time \<Rightarrow> (db_error + Job) \<times> DB" where
  "LeaseJob loc tie db now leaseUntil =
     (case fault db of
        Some e \<Rightarrow> (Inl (DriverError e), db)
      | None \<Rightarrow>
          (case oldest_rows loc (filter (lease_where loc now) (jobs db)) of
             [] \<Rightarrow> (Inl ErrNoRows, db)
           | m # ms \<Rightarrow>
               (let r = (m # ms) ! (tie mod length (m # ms))
                in (Inr (leased_job r leaseUntil),
                    db\<lparr>jobs := map (\<lambda>x. if row_id x = row_id r
                                         then x\<lparr>status := StatusRunning,
                                                leased_until := Some leaseUntil,
                                                updated_at := now\<rparr>
                                         else x) (jobs db)\<rparr>))))"

text \<open>
  \<open>GetMetrics\<close> ignores the error of each of its seven queries: a failed query leaves the
  field at its zero value, and the function itself never fails.
\<close>

definition count_where :: "DB \<Rightarrow> (row \<Rightarrow> bool) \<Rightarrow> int" where
  "count_where db P =
     (case fault db of Some e \<Rightarrow> 0 | None \<Rightarrow> int (length (filter P (jobs db))))"

definition GetMetrics :: "DB \<Rightarrow> Metrics" where
  "GetMetrics db =
     \<lparr> TotalJobs = count_where db (\<lambda>r. True),
       PendingJobs = count_where db (\<lambda>r. status r = StatusPending),
       RunningJobs = count_where db (\<lambda>r. status r = StatusRunning),
       CompletedJobs = count_where db (\<lambda>r. status r = StatusDone),
       FailedJobs = count_where db (\<lambda>r. status r = StatusFailed \<and> retry_count r < max_retries r),
       DLQJobs = count_where db (\<lambda>r. status r = StatusFailed \<and> retry_count r \<ge> max_retries r),
       TotalRetries =
         (case fault db of Some e \<Rightarrow> 0 | None \<Rightarrow> sum_list (map retry_count (jobs db))) \<rparr>"

section \<open>The rate limiter (package ratelimit)\<close>

text \<open>
  The two Go maps are partial maps; reading a missing key of \<open>tenantTokens\<close> gives the
  zero value \<open>0\<close>, as in Go. The mutex makes each call of \<open>Allow\<close> one atomic step.
\<close>

record RateLimiter =
  tenantTokens :: "string \<rightharpoonup> int"
  tenantLastReset :: "string \<rightharpoonup> Time"
  maxJobsPerMin :: int

definition New :: "int \<Rightarrow> RateLimiter" where
  "New n = \<lparr> tenantTokens = Map.empty, tenantLastReset = Map.empty, maxJobsPerMin = n \<rparr>"

definition tokens_of :: "RateLimiter \<Rightarrow> string \<Rightarrow> int" where
  "tokens_of rl tenantID = (case tenantTokens rl tenantID of None \<Rightarrow> 0 | Some n \<Rightarrow> n)"

text \<open>
  \<open>Allow\<close>; \<open>now\<close> is its \<open>time.Now()\<close>. The decrement is of a positive number, so it
  cannot wrap.
\<close>

definition Allow :: "RateLimiter \<Rightarrow> Time \<Rightarrow> string \<Rightarrow> bool \<times> RateLimiter" where
  "Allow rl now tenantID =
     (let rl1 =
            (if (case tenantLastReset rl tenantID of
                   None \<Rightarrow> True
                 | Some lastReset \<Rightarrow> Sub now lastReset > Minute)
             then rl\<lparr>tenantTokens := (tenantTokens rl)(tenantID \<mapsto> maxJobsPerMin rl),
                     tenantLastReset := (tenantLastReset rl)(tenantID \<mapsto> now)\<rparr>
             else rl)
      in if tokens_of rl1 tenantID > 0
         then (True, rl1\<lparr>tenantTokens := (tenantTokens rl1)(tenantID \<mapsto> tokens_of rl1 tenantID - 1)\<rparr>)
         else (False, rl1))"

text \<open>
  A run of calls of \<open>Allow\<close>, each a pair of the tenant and the clock reading of the call,
  threading the limiter through; it returns the answers in order.
\<close>

fun Allow_calls :: "RateLimiter \<Rightarrow> (string \<times> Time) list \<Rightarrow> bool list \<times> RateLimiter" where
  "Allow_calls rl [] = ([], rl)"
| "Allow_calls rl (c # cs) =
     (let (ok, rl1) = Allow rl (snd c) (fst c);
          (oks, rl2) = Allow_calls rl1 cs
      in (ok # oks, rl2))"

section \<open>The HTTP handlers (package api)\<close>

text \<open>
  A response is its status code and what was written to the body: the message of
  \<open>http.Error\<close>, or the value given to the JSON encoder. A handler that never calls
  \<open>WriteHeader\<close> answers 200.
\<close>

datatype resp_body = ErrorText string | JobBody Job

record Response =
  code :: nat
  body :: resp_body

definition http_Error :: "string \<Rightarrow> nat \<Rightarrow> Response" where
  "http_Error msg c = \<lparr> code = c, body = ErrorText msg \<rparr>"

definition StatusOK :: nat where "StatusOK = 200"
definition StatusCreated :: nat where "StatusCreated = 201"
definition StatusBadRequest :: nat where "StatusBadRequest = 400"
definition StatusNotFound :: nat where "StatusNotFound = 404"
definition StatusMethodNotAllowed :: nat where "StatusMethodNotAllowed = 405"
definition StatusTooManyRequests :: nat where "StatusTooManyRequests = 429"
definition StatusInternalServerError :: nat where "StatusInternalServerError = 500"

text \<open>
  The server state the handlers read and write: the database and the rate limiter (fields
  \<open>db\<close> and \<open>rateLimiter\<close> of \<open>Server\<close>). The websocket manager only sends
  notifications and is left out.
\<close>

record Server =
  s_db :: DB
  s_rateLimiter :: RateLimiter

definition NewServer :: "DB \<Rightarrow> Server" where
  "NewServer d = \<lparr> s_db = d, s_rateLimiter = New 10 \<rparr>"

text \<open>\<open>fmt.Sprintf\<close> with the verb \<open>%d\<close>: the decimal digits of an integer.\<close>

fun nat_dec :: "nat \<Rightarrow> string" where
  "nat_dec n =
     (if n < 10 then [''0123456789'' ! n]
      else nat_dec (n div 10) @ [''0123456789'' ! (n mod 10)])"

definition Sprintf_d :: "string \<Rightarrow> int \<Rightarrow> string" where
  "Sprintf_d prefix i =
     prefix @ (if i < 0 then CHR ''-'' # nat_dec (nat (- i)) else nat_dec (nat i))"

text \<open>
  The job that \<open>SubmitJob\<close> builds under its comment "Create new job": \<open>max_retries\<close>
  is replaced by 3 only when it is 0.
\<close>

definition newJob :: "JobSubmitRequest \<Rightarrow> int \<Rightarrow> int \<Rightarrow> Time \<Rightarrow> Job" where
  "newJob req trace_nano job_nano now =
     (let maxRetries = (if req_MaxRetries req = 0 then 3 else req_MaxRetries req);
          traceID = Sprintf_d ''trace-'' trace_nano;
          jobID = Sprintf_d ''job-'' job_nano
      in \<lparr> ID = jobID, TenantID = req_TenantID req,
           Payload = req_Payload req, Status = StatusPending,
           IdempotencyKey = req_IdempotencyKey req,
           RetryCount = 0, MaxRetries = maxRetries,
           CreatedAt = now, UpdatedAt = now,
           LeasedUntil = None, ErrorMessage = '''',
           TraceID = traceID \<rparr>)"

text \<open>
  \<open>SubmitJob\<close>. The request is its method and the result of decoding the body (\<open>None\<close>
  when the JSON decoder fails; a field missing from the JSON is the zero value). The
  clock is read four times: \<open>t_allow\<close> inside \<open>Allow\<close>, \<open>trace_nano\<close> and \<open>job_nano\<close>
  are the two \<open>UnixNano()\<close> readings, \<open>now\<close> stamps the job. With an empty
  idempotency key the lookup is skipped, which is the branch of a lookup that found
  nothing. The broadcast after a successful insert only notifies and is left out.
\<close>

definition SubmitJob ::
  "Server \<Rightarrow> string \<Rightarrow> JobSubmitRequest option \<Rightarrow> Time \<Rightarrow> int \<Rightarrow> int \<Rightarrow> Time
     \<Rightarrow> Response \<times> Server" where
  "SubmitJob s method decoded t_allow trace_nano job_nano now =
     (if method \<noteq> ''POST'' then (http_Error ''Method not allowed'' StatusMethodNotAllowed, s)
      else case decoded of
        None \<Rightarrow> (http_Error ''Invalid request body'' StatusBadRequest, s)
      | Some req \<Rightarrow>
          if req_TenantID req = '''' \<or> req_Payload req = ''''
          then (http_Error ''tenant_id and payload are required'' StatusBadRequest, s)
          else
            let (allowed, rl) = Allow (s_rateLimiter s) t_allow (req_TenantID req);
                s1 = s\<lparr>s_rateLimiter := rl\<rparr>
            in if \<not> allowed
               then (http_Error ''Rate limit exceeded'' StatusTooManyRequests, s1)
               else case GetRunningJobsCount (s_db s1) (req_TenantID req) of
                 Inl e \<Rightarrow> (http_Error ''Internal server error'' StatusInternalServerError, s1)
               | Inr runningCount \<Rightarrow>
                   if runningCount \<ge> 5
                   then (http_Error ''Concurrent job limit exceeded (max 5)''
                           StatusTooManyRequests, s1)
                   else
                     case (if req_IdempotencyKey req \<noteq> ''''
                           then GetJobByIdempotencyKey (s_db s1) (req_IdempotencyKey req)
                           else Inl ErrNoRows) of
                       Inr existingJob \<Rightarrow> (\<lparr> code = StatusOK, body = JobBody existingJob \<rparr>, s1)
                     | Inl e \<Rightarrow>
                         let job = newJob req trace_nano job_nano now
                         in case InsertJob (s_db s1) job of
                              (Some err, d) \<Rightarrow>
                                (http_Error ''Failed to create job'' StatusInternalServerError,
                                 s1\<lparr>s_db := d\<rparr>)
                            | (None, d) \<Rightarrow>
                                (\<lparr> code = StatusCreated, body = JobBody job \<rparr>, s1\<lparr>s_db := d\<rparr>))"

text \<open>\<open>GetJobStatus\<close>; \<open>jobID\<close> is the query parameter \<open>id\<close>.\<close>

definition GetJobStatus :: "Server \<Rightarrow> string \<Rightarrow> Response" where
  "GetJobStatus s jobID =
     (if jobID = '''' then http_Error ''job id is required'' StatusBadRequest
      else case GetJobByID (s_db s) jobID of
        Inl err \<Rightarrow> http_Error ''Job not found'' StatusNotFound
      | Inr job \<Rightarrow> \<lparr> code = StatusOK, body = JobBody job \<rparr>)"

section \<open>The worker (internal/worker/worker.go)\<close>

definition leaseDuration :: Duration where
  "leaseDuration = 30 * Second"

text \<open>
  \<open>executeJob\<close> sleeps and then reports success unless the Unix time in seconds, read
  after the sleep, is a multiple of five; \<open>unix_now\<close> is that reading.
\<close>

definition executeJob :: "int \<Rightarrow> bool" where
  "executeJob unix_now \<longleftrightarrow> unix_now mod 5 \<noteq> 0"

text \<open>
  \<open>processNextJob\<close>: one poll of one worker. \<open>now\<close> is the worker's clock reading,
  \<open>t_lease\<close> the one inside \<open>LeaseJob\<close>, \<open>unix_done\<close> the reading of \<open>executeJob\<close> and
  \<open>t_upd\<close> the one of the final UPDATE; \<open>loc\<close> and \<open>tie\<close> are passed on to
  \<open>LeaseJob\<close>. An error of the final UPDATE is only logged.
\<close>

definition processNextJob :: "Zone \<Rightarrow> nat \<Rightarrow> DB \<Rightarrow> Time \<Rightarrow> Time \<Rightarrow> int \<Rightarrow> Time \<Rightarrow> DB" where
  "processNextJob loc tie db now t_lease unix_done t_upd =
     (let leaseUntil = now + leaseDuration
      in case LeaseJob loc tie db t_lease leaseUntil of
           (Inl err, db1) \<Rightarrow> db1
         | (Inr job, db1) \<Rightarrow>
             if executeJob unix_done
             then snd (UpdateJobStatus db1 t_upd (ID job) StatusDone '''')
             else
               let job1 = job\<lparr>RetryCount := wrap64 (RetryCount job + 1)\<rparr>
               in if RetryCount job1 \<ge> MaxRetries job1
                  then snd (UpdateJobStatus db1 t_upd (ID job1) StatusFailed
                              ''Max retries exceeded - moved to DLQ'')
                  else snd (UpdateJobForRetry db1 t_upd (ID job1) (RetryCount job1)
                              ''Job failed - will retry''))"

section \<open>Predicates used to state the properties\<close>

text \<open>
  The eligibility predicate in the words of the specification: pending, or running with
  an expired lease, or failed with retries left.
\<close>

definition spec_eligible :: "Time \<Rightarrow> row \<Rightarrow> bool" where
  "spec_eligible now r \<longleftrightarrow>
     status r = StatusPending \<or>
     (status r = StatusRunning \<and> (\<exists>l. leased_until r = Some l \<and> l < now)) \<or>
     (status r = StatusFailed \<and> retry_count r < max_retries r)"

text \<open>
  All timestamps that a claim at \<open>now\<close> compares carry the zone offset of \<open>now\<close>: the
  \<open>created_at\<close> and the \<open>leased_until\<close> of every row. This holds in a process whose
  local zone is UTC or any other zone of fixed offset, and between two changes of the
  offset otherwise.
\<close>

definition same_zone :: "Zone \<Rightarrow> DB \<Rightarrow> Time \<Rightarrow> bool" where
  "same_zone loc db now \<longleftrightarrow>
     list_all (\<lambda>r. loc (created_at r) = loc now \<and>
                    (case leased_until r of None \<Rightarrow> True | Some l \<Rightarrow> loc l = loc now))
       (jobs db)"

text \<open>The PRIMARY KEY constraint on column \<open>id\<close>.\<close>

definition primary_key :: "DB \<Rightarrow> bool" where
  "primary_key db \<longleftrightarrow> distinct (map row_id (jobs db))"


text \<open>Every row carries one of the four status constants.\<close>

definition statuses_ok :: "DB \<Rightarrow> bool" where
  "statuses_ok db \<longleftrightarrow>
     list_all (\<lambda>r. status r \<in> {StatusPending, StatusRunning, StatusDone, StatusFailed}) (jobs db)"

text \<open>
  The non-NULL idempotency keys of the rows, in table order; a table has at most one row
  per key when the list has no duplicate.
\<close>

fun idem_keys :: "row list \<Rightarrow> string list" where
  "idem_keys [] = []"
| "idem_keys (r # rs) =
     (case idempotency_key r of None \<Rightarrow> idem_keys rs | Some k \<Rightarrow> k # idem_keys rs)"

definition idem_unique :: "DB \<Rightarrow> bool" where
  "idem_unique db \<longleftrightarrow> distinct (idem_keys (jobs db))"

definition rows_with_key :: "DB \<Rightarrow> string \<Rightarrow> row list" where
  "rows_with_key db k = filter (\<lambda>r. idempotency_key r = Some k) (jobs db)"

text \<open>
  A submission is admitted when both gates of \<open>SubmitJob\<close> let it pass: \<open>Allow\<close> answers
  true and the tenant has fewer than five running jobs.
\<close>

definition admitted :: "Server \<Rightarrow> JobSubmitRequest \<Rightarrow> Time \<Rightarrow> bool" where
  "admitted s req t_allow \<longleftrightarrow>
     fst (Allow (s_rateLimiter s) t_allow (req_TenantID req)) \<and>
     (case GetRunningJobsCount (s_db s) (req_TenantID req) of
        Inl e \<Rightarrow> False
      | Inr n \<Rightarrow> n < 5)"

text \<open>
  The window of a tenant has elapsed at \<open>now\<close> when the tenant was never seen or its last
  reset is more than a minute back. \<open>calls_of\<close> are the clock readings of one tenant's
  calls in a run, \<open>answers_for\<close> the answers that tenant got.
\<close>

definition window_elapsed :: "RateLimiter \<Rightarrow> Time \<Rightarrow> string \<Rightarrow> bool" where
  "window_elapsed rl now t \<longleftrightarrow>
     (case tenantLastReset rl t of None \<Rightarrow> True | Some r \<Rightarrow> now - r > Minute)"

definition calls_of :: "string \<Rightarrow> (string \<times> Time) list \<Rightarrow> Time list" where
  "calls_of t cs = map snd (filter (\<lambda>c. fst c = t) cs)"

definition answers_for :: "string \<Rightarrow> (string \<times> Time) list \<Rightarrow> bool list \<Rightarrow> bool list" where
  "answers_for t cs oks = map snd (filter (\<lambda>p. fst (fst p) = t) (zip cs oks))"

section \<open>Example states\<close>

definition mk_row :: "string \<Rightarrow> string \<Rightarrow> int \<Rightarrow> int \<Rightarrow> Time \<Rightarrow> Time option \<Rightarrow> row" where
  "mk_row i st rc mr created leased =
     \<lparr> row_id = i, tenant_id = ''t1'', payload = ''p1'', status = st,
       idempotency_key = None, retry_count = rc, max_retries = mr,
       created_at = created, updated_at = created, leased_until = leased,
       error_message = None, trace_id = ''trace-1'' \<rparr>"

text \<open>
  A table with a dead-lettered row (the oldest), a running row whose lease ended at 50,
  and a pending row; and a table where nothing can be claimed.
\<close>

definition ex_db :: DB where
  "ex_db = \<lparr> jobs = [mk_row ''job-3'' StatusFailed 3 3 5 None,
                     mk_row ''job-1'' StatusRunning 1 3 10 (Some 50),
                     mk_row ''job-2'' StatusPending 0 3 20 None],
             fault = None \<rparr>"


text \<open>
  The scenario of the specification: tenant \<open>t1\<close> submits payload \<open>p1\<close> with
  \<open>max_retries = 3\<close> to a fresh server, and every execution fails. \<open>scen_db\<close> is the
  table with the one row of that job, in the state given by the arguments.
\<close>

definition ex_req :: JobSubmitRequest where
  "ex_req = \<lparr> req_TenantID = ''t1'', req_Payload = ''p1'', req_IdempotencyKey = ''k1'',
              req_MaxRetries = 3 \<rparr>"

definition ex_srv0 :: Server where
  "ex_srv0 = NewServer \<lparr> jobs = [], fault = None \<rparr>"

definition ex_job :: Job where
  "ex_job = \<lparr> ID = ''job-1002'', TenantID = ''t1'', Payload = ''p1'', Status = ''pending'',
              IdempotencyKey = ''k1'', RetryCount = 0, MaxRetries = 3, CreatedAt = 1003,
              UpdatedAt = 1003, LeasedUntil = None, ErrorMessage = '''',
              TraceID = ''trace-1001'' \<rparr>"

definition scen_row :: "string \<Rightarrow> int \<Rightarrow> Time \<Rightarrow> Time option \<Rightarrow> string option \<Rightarrow> row" where
  "scen_row st rc upd leased msg =
     \<lparr> row_id = ''job-1002'', tenant_id = ''t1'', payload = ''p1'', status = st,
       idempotency_key = Some ''k1'', retry_count = rc, max_retries = 3,
       created_at = 1003, updated_at = upd, leased_until = leased,
       error_message = msg, trace_id = ''trace-1001'' \<rparr>"

definition scen_db :: "string \<Rightarrow> int \<Rightarrow> Time \<Rightarrow> string option \<Rightarrow> DB" where
  "scen_db st rc upd msg = \<lparr> jobs = [scen_row st rc upd None msg], fault = None \<rparr>"

text \<open>The server after the first submission, and the same server with no token left.\<close>

definition ex_srv1 :: Server where
  "ex_srv1 = \<lparr> s_db = scen_db ''pending'' 0 1003 None,
               s_rateLimiter = \<lparr> tenantTokens = [''t1'' \<mapsto> 9],
                                  tenantLastReset = [''t1'' \<mapsto> 1000],
                                  maxJobsPerMin = 10 \<rparr> \<rparr>"

definition ex_srv_spent :: Server where
  "ex_srv_spent = \<lparr> s_db = scen_db ''pending'' 0 1003 None,
                    s_rateLimiter = \<lparr> tenantTokens = [''t1'' \<mapsto> 0],
                                       tenantLastReset = [''t1'' \<mapsto> 1000],
                                       maxJobsPerMin = 10 \<rparr> \<rparr>"

text \<open>The job as persisted after its third failed execution.\<close>

definition ex_dlq_job :: Job where
  "ex_dlq_job = \<lparr> ID = ''job-1002'', TenantID = ''t1'', Payload = ''p1'', Status = ''failed'',
                  IdempotencyKey = ''k1'', RetryCount = 2, MaxRetries = 3, CreatedAt = 1003,
                  UpdatedAt = 4002, LeasedUntil = None,
                  ErrorMessage = ''Max retries exceeded - moved to DLQ'',
                  TraceID = ''trace-1001'' \<rparr>"


definition ex_srv_locked :: Server where
  "ex_srv_locked = \<lparr> s_db = \<lparr> jobs = [scen_row ''pending'' 0 1003 None None],
                              fault = Some ''database is locked'' \<rparr>,
                     s_rateLimiter = New 10 \<rparr>"

text \<open>
  A run of calls of \<open>Allow\<close>: after an opening call of \<open>t1\<close> at time 0, ten more of
  \<open>t1\<close> with two of \<open>t2\<close> in between. And a limiter whose tenant \<open>t1\<close> has used up
  the window that began at 1000.
\<close>

definition ex_calls :: "(string \<times> Time) list" where
  "ex_calls = [(''t1'', 1), (''t1'', 2), (''t2'', 3), (''t1'', 4), (''t1'', 5), (''t1'', 6),
               (''t1'', 7), (''t1'', 8), (''t1'', 9), (''t2'', 10), (''t1'', 11), (''t1'', 12)]"

definition ex_limiter_old :: RateLimiter where
  "ex_limiter_old = \<lparr> tenantTokens = [''t1'' \<mapsto> 0], tenantLastReset = [''t1'' \<mapsto> 1000],
                      maxJobsPerMin = 10 \<rparr>"

text \<open>
  Two local zones: UTC, and a zone that goes from four to five hours west of UTC at the
  instant of 100000 seconds, as a zone with daylight saving time does in autumn. And a
  table whose one job is running with a lease that ended at 98200 seconds, half an hour
  before that change.
\<close>

definition utc :: Zone where
  "utc t = 0"

definition ex_dst :: Zone where
  "ex_dst t = (if t < 100000 * Second then - 14400 else - 18000)"

definition ex_dst_db :: DB where
  "ex_dst_db = \<lparr> jobs = [mk_row ''job-1'' StatusRunning 0 3 (90000 * Second)
                            (Some (98200 * Second))],
                 fault = None \<rparr>"


section \<open>Properties\<close>

subsection \<open>Basic facts\<close>

lemma status_consts_distinct:
  "StatusPending \<noteq> StatusRunning" "StatusPending \<noteq> StatusDone" "StatusPending \<noteq> StatusFailed"
  "StatusRunning \<noteq> StatusDone" "StatusRunning \<noteq> StatusFailed" "StatusDone \<noteq> StatusFailed"
  "StatusRunning \<noteq> StatusPending" "StatusDone \<noteq> StatusPending" "StatusFailed \<noteq> StatusPending"
  "StatusDone \<noteq> StatusRunning" "StatusFailed \<noteq> StatusRunning" "StatusFailed \<noteq> StatusDone"
  by (simp_all add: StatusPending_def StatusRunning_def StatusDone_def StatusFailed_def)

lemma sort_key_first:
  assumes "sort_key f xs = r # rest"
  shows "r \<in> set xs \<and> (\<forall>x\<in>set xs. f r \<le> f x)"
proof -
  have "set (r # rest) = set xs" using assms set_sort [of f xs] by simp
  moreover have "sorted (map f (r # rest))" using assms sorted_sort_key [of f xs] by simp
  ultimately show ?thesis by auto
qed

lemma pk_row_eq:
  assumes "distinct (map row_id rows)" "x \<in> set rows" "r \<in> set rows"
  shows "row_id x = row_id r \<longleftrightarrow> x = r"
  using assms by (auto simp: distinct_map dest: inj_onD)

lemma find_id_None: "find (\<lambda>r. row_id r = i) rs = None \<longleftrightarrow> i \<notin> set (map row_id rs)"
  by (auto simp: find_None_iff)

lemma find_append:
  "find P (xs @ ys) = (case find P xs of None \<Rightarrow> find P ys | Some x \<Rightarrow> Some x)"
  by (induction xs) auto

subsection \<open>Timestamps as the store compares them\<close>

lemma stamp_less_same: "loc a = loc b \<Longrightarrow> stamp loc a < stamp loc b \<longleftrightarrow> a < b"
  by (simp add: stamp_def)

lemma stamp_le_same: "loc a = loc b \<Longrightarrow> stamp loc a \<le> stamp loc b \<longleftrightarrow> a \<le> b"
  by (auto simp: stamp_def)

lemma same_zone_iff:
  "same_zone loc db now \<longleftrightarrow>
     (\<forall>r\<in>set (jobs db). loc (created_at r) = loc now \<and>
        (\<forall>l. leased_until r = Some l \<longrightarrow> loc l = loc now))"
  by (auto simp: same_zone_def list_all_iff split: option.splits)

lemma lease_where_spec:
  assumes "same_zone loc db now" "r \<in> set (jobs db)"
  shows "lease_where loc now r \<longleftrightarrow> spec_eligible now r"
  using assms
  by (auto simp: lease_where_def spec_eligible_def same_zone_iff stamp_less_same
           split: option.splits)

lemma oldest_rows_mem:
  "r \<in> set (oldest_rows loc rs) \<longleftrightarrow>
     r \<in> set rs \<and> (\<forall>x\<in>set rs. stamp loc (created_at r) \<le> stamp loc (created_at x))"
  by (auto simp: oldest_rows_def list_all_iff)

lemma oldest_rows_nonempty:
  assumes "rs \<noteq> []"
  shows "oldest_rows loc rs \<noteq> []"
proof -
  have "sort_key (\<lambda>r. stamp loc (created_at r)) rs \<noteq> []"
    using assms by (metis set_sort set_empty)
  then obtain r rest where s: "sort_key (\<lambda>r. stamp loc (created_at r)) rs = r # rest"
    by (cases "sort_key (\<lambda>r. stamp loc (created_at r)) rs") auto
  from sort_key_first [OF s] have "r \<in> set (oldest_rows loc rs)"
    by (simp add: oldest_rows_mem)
  then show ?thesis by auto
qed

subsection \<open>LeaseJob\<close>

lemma LeaseJob_none:
  assumes "fault db = None" "\<forall>r\<in>set (jobs db). \<not> lease_where loc now r"
  shows "LeaseJob loc tie db now lu = (Inl ErrNoRows, db)"
proof -
  have "filter (lease_where loc now) (jobs db) = []"
    using assms(2) by (simp add: filter_empty_conv)
  then show ?thesis using assms(1) by (simp add: LeaseJob_def oldest_rows_def)
qed

lemma LeaseJob_some:
  assumes "fault db = None" "\<exists>r\<in>set (jobs db). lease_where loc now r"
  shows "\<exists>r\<in>set (jobs db). lease_where loc now r \<and>
           (\<forall>x\<in>set (jobs db). lease_where loc now x \<longrightarrow>
               stamp loc (created_at r) \<le> stamp loc (created_at x)) \<and>
           LeaseJob loc tie db now lu =
             (Inr (leased_job r lu),
              db\<lparr>jobs := map (\<lambda>x. if row_id x = row_id r
                                   then x\<lparr>status := StatusRunning, leased_until := Some lu,
                                          updated_at := now\<rparr>
                                   else x) (jobs db)\<rparr>)"
proof -
  let ?c = "filter (lease_where loc now) (jobs db)"
  have "?c \<noteq> []" using assms(2) by (simp add: filter_empty_conv)
  then have "oldest_rows loc ?c \<noteq> []" by (rule oldest_rows_nonempty)
  then obtain m ms where o: "oldest_rows loc ?c = m # ms"
    by (cases "oldest_rows loc ?c") auto
  let ?r = "(m # ms) ! (tie mod length (m # ms))"
  have "?r \<in> set (m # ms)" by (rule nth_mem) simp
  then have "?r \<in> set (oldest_rows loc ?c)" using o by simp
  then have r: "?r \<in> set (jobs db)" "lease_where loc now ?r"
    and m: "\<forall>x\<in>set (jobs db). lease_where loc now x \<longrightarrow>
              stamp loc (created_at ?r) \<le> stamp loc (created_at x)"
    by (auto simp: oldest_rows_mem)
  have "LeaseJob loc tie db now lu =
             (Inr (leased_job ?r lu),
              db\<lparr>jobs := map (\<lambda>x. if row_id x = row_id ?r
                                   then x\<lparr>status := StatusRunning, leased_until := Some lu,
                                          updated_at := now\<rparr>
                                   else x) (jobs db)\<rparr>)"
    using assms(1) o by (simp add: LeaseJob_def Let_def)
  with r m show ?thesis by blast
qed

lemma LeaseJob_some_pk:
  assumes "fault db = None" and "primary_key db" and "same_zone loc db now"
    and "\<exists>r\<in>set (jobs db). spec_eligible now r"
  shows "\<exists>r\<in>set (jobs db). spec_eligible now r \<and>
           (\<forall>x\<in>set (jobs db). spec_eligible now x \<longrightarrow> created_at r \<le> created_at x) \<and>
           LeaseJob loc tie db now leaseUntil =
             (Inr (leased_job r leaseUntil),
              db\<lparr>jobs := map (\<lambda>x. if x = r
                                   then r\<lparr>status := StatusRunning,
                                          leased_until := Some leaseUntil,
                                          updated_at := now\<rparr>
                                   else x) (jobs db)\<rparr>)"
proof -
  have "\<exists>r\<in>set (jobs db). lease_where loc now r"
    using assms(4) lease_where_spec [OF assms(3)] by blast
  from LeaseJob_some [OF assms(1) this, of tie leaseUntil]
  obtain r where r: "r \<in> set (jobs db)" "lease_where loc now r"
    "\<forall>x\<in>set (jobs db). lease_where loc now x \<longrightarrow>
        stamp loc (created_at r) \<le> stamp loc (created_at x)"
    and l: "LeaseJob loc tie db now leaseUntil =
             (Inr (leased_job r leaseUntil),
              db\<lparr>jobs := map (\<lambda>x. if row_id x = row_id r
                                   then x\<lparr>status := StatusRunning, leased_until := Some leaseUntil,
                                          updated_at := now\<rparr>
                                   else x) (jobs db)\<rparr>)"
    by blast
  have pk: "distinct (map row_id (jobs db))" using assms(2) by (simp add: primary_key_def)
  have e: "spec_eligible now r" using r(1,2) lease_where_spec [OF assms(3)] by blast
  have z: "\<forall>x\<in>set (jobs db). loc (created_at x) = loc now"
    using assms(3) by (simp add: same_zone_iff)
  have m: "\<forall>x\<in>set (jobs db). spec_eligible now x \<longrightarrow> created_at r \<le> created_at x"
  proof (intro ballI impI)
    fix x assume x: "x \<in> set (jobs db)" "spec_eligible now x"
    then have "stamp loc (created_at r) \<le> stamp loc (created_at x)"
      using r(3) lease_where_spec [OF assms(3)] by blast
    moreover have "loc (created_at r) = loc (created_at x)" using z r(1) x(1) by simp
    ultimately show "created_at r \<le> created_at x" by (simp add: stamp_le_same)
  qed
  have "map (\<lambda>x. if row_id x = row_id r
                   then x\<lparr>status := StatusRunning, leased_until := Some leaseUntil, updated_at := now\<rparr>
                   else x) (jobs db) =
        map (\<lambda>x. if x = r
                   then r\<lparr>status := StatusRunning, leased_until := Some leaseUntil, updated_at := now\<rparr>
                   else x) (jobs db)"
    using pk_row_eq [OF pk _ r(1)] by auto
  with l r(1) e m show ?thesis by auto
qed


lemma LeaseJob_Inr:
  assumes "LeaseJob loc tie db now lu = (Inr job, db1)"
  shows "fault db = None \<and>
         (\<exists>r\<in>set (jobs db). lease_where loc now r \<and>
            (\<forall>x\<in>set (jobs db). lease_where loc now x \<longrightarrow>
                stamp loc (created_at r) \<le> stamp loc (created_at x)) \<and>
            job = leased_job r lu \<and>
            db1 = db\<lparr>jobs := map (\<lambda>x. if row_id x = row_id r
                                   then x\<lparr>status := StatusRunning, leased_until := Some lu,
                                          updated_at := now\<rparr>
                                   else x) (jobs db)\<rparr>)"
proof -
  have f: "fault db = None" using assms by (auto simp: LeaseJob_def split: option.splits)
  have "\<exists>r\<in>set (jobs db). lease_where loc now r"
  proof (rule ccontr)
    assume "\<not> (\<exists>r\<in>set (jobs db). lease_where loc now r)"
    then have "LeaseJob loc tie db now lu = (Inl ErrNoRows, db)" using LeaseJob_none [OF f] by blast
    then show False using assms by simp
  qed
  from LeaseJob_some [OF f this, of tie lu] assms f show ?thesis by auto
qed

lemma LeaseJob_Inl:
  assumes "fst (LeaseJob loc tie db now lu) = Inl e"
  shows "snd (LeaseJob loc tie db now lu) = db"
  using assms by (auto simp: LeaseJob_def Let_def split: option.splits list.splits)

lemma processNextJob_leased:
  assumes "LeaseJob loc tie db t_lease (now + leaseDuration) = (Inr job, db1)"
  shows "processNextJob loc tie db now t_lease u t_upd =
     (if executeJob u then snd (UpdateJobStatus db1 t_upd (ID job) StatusDone [])
      else if wrap64 (RetryCount job + 1) \<ge> MaxRetries job
      then snd (UpdateJobStatus db1 t_upd (ID job) StatusFailed ''Max retries exceeded - moved to DLQ'')
      else snd (UpdateJobForRetry db1 t_upd (ID job) (wrap64 (RetryCount job + 1)) ''Job failed - will retry''))"
  using assms by (simp add: processNextJob_def Let_def)

lemma processNextJob_not_leased:
  assumes "fst (LeaseJob loc tie db t_lease (now + leaseDuration)) = Inl e"
  shows "processNextJob loc tie db now t_lease u t_upd = db"
  using assms LeaseJob_Inl [OF assms]
  by (cases "LeaseJob loc tie db t_lease (now + leaseDuration)") (auto simp: processNextJob_def Let_def)



subsection \<open>The rate gate\<close>

lemma Minute_val: "Minute = 60000000000"
  by (simp add: Minute_def Second_def)

lemma Sub_gt_Minute: "Sub t u > Minute \<longleftrightarrow> t - u > Minute"
  by (auto simp: Sub_def Let_def Minute_val maxDuration_def minDuration_def)

lemma Allow_reset:
  assumes "window_elapsed rl now t"
  shows "Allow rl now t =
           (maxJobsPerMin rl > 0,
            rl\<lparr>tenantTokens := (tenantTokens rl)(t \<mapsto> (if maxJobsPerMin rl > 0
                                                         then maxJobsPerMin rl - 1
                                                         else maxJobsPerMin rl)),
                tenantLastReset := (tenantLastReset rl)(t \<mapsto> now)\<rparr>)"
  using assms
  by (auto simp: Allow_def Let_def tokens_of_def Sub_gt_Minute window_elapsed_def split: option.splits)

lemma Allow_in_window:
  assumes "\<not> window_elapsed rl now t"
  shows "Allow rl now t =
           (if tokens_of rl t > 0
            then (True, rl\<lparr>tenantTokens := (tenantTokens rl)(t \<mapsto> tokens_of rl t - 1)\<rparr>)
            else (False, rl))"
  using assms
  by (auto simp: Allow_def Let_def Sub_gt_Minute window_elapsed_def split: option.splits)

lemma Allow_consumes:
  assumes "fst (Allow rl now t)"
  shows "tokens_of (snd (Allow rl now t)) t =
           (if window_elapsed rl now t then maxJobsPerMin rl else tokens_of rl t) - 1"
proof (cases "window_elapsed rl now t")
  case True
  then show ?thesis using assms Allow_reset [OF True] by (simp add: tokens_of_def)
next
  case False
  then show ?thesis using assms Allow_in_window [OF False]
    by (auto simp: tokens_of_def split: if_splits)
qed

lemma Allow_other_tenant:
  assumes "t' \<noteq> t"
  shows "tokens_of (snd (Allow rl now t')) t = tokens_of rl t
       \<and> tenantLastReset (snd (Allow rl now t')) t = tenantLastReset rl t"
  using assms by (auto simp: Allow_def Let_def tokens_of_def)

lemma window_answers:
  assumes "tenantLastReset rl t = Some t0" "tokens_of rl t = int m"
    and "\<forall>u\<in>set (calls_of t cs). u - t0 \<le> Minute"
  shows "answers_for t cs (fst (Allow_calls rl cs)) =
           replicate (min m (length (calls_of t cs))) True @
           replicate (length (calls_of t cs) - m) False"
  using assms
proof (induction cs arbitrary: rl m)
  case Nil
  then show ?case by (simp add: answers_for_def calls_of_def)
next
  case (Cons c cs)
  obtain ok rl1 where a: "Allow rl (snd c) (fst c) = (ok, rl1)" by (cases "Allow rl (snd c) (fst c)")
  obtain oks rl2 where b: "Allow_calls rl1 cs = (oks, rl2)" by (cases "Allow_calls rl1 cs")
  have run: "fst (Allow_calls rl (c # cs)) = ok # oks" using a b by simp
  show ?case
  proof (cases "fst c = t")
    case False
    then have "tenantLastReset rl1 t = Some t0" "tokens_of rl1 t = int m"
      using Allow_other_tenant [of "fst c" t rl "snd c"] a Cons.prems by auto
    moreover have cc: "calls_of t (c # cs) = calls_of t cs" using False by (simp add: calls_of_def)
    ultimately have "answers_for t cs (fst (Allow_calls rl1 cs)) =
           replicate (min m (length (calls_of t cs))) True @
           replicate (length (calls_of t cs) - m) False"
      using Cons.IH [of rl1 m] Cons.prems(3) by simp
    moreover have "answers_for t (c # cs) (ok # oks) = answers_for t cs oks"
      using False by (simp add: answers_for_def)
    ultimately show ?thesis using run b cc by simp
  next
    case True
    then have cc: "calls_of t (c # cs) = snd c # calls_of t cs" by (simp add: calls_of_def)
    then have w: "snd c - t0 \<le> Minute" and rest: "\<forall>u\<in>set (calls_of t cs). u - t0 \<le> Minute"
      using Cons.prems(3) by auto
    have nw: "\<not> window_elapsed rl (snd c) t"
      using w Cons.prems(1) by (simp add: window_elapsed_def)
    have ans: "answers_for t (c # cs) (ok # oks) = ok # answers_for t cs oks"
      using True by (simp add: answers_for_def)
    show ?thesis
    proof (cases m)
      case 0
      then have "ok = False" "rl1 = rl"
        using Allow_in_window [OF nw] a True Cons.prems(2) by auto
      then have "answers_for t cs (fst (Allow_calls rl1 cs)) =
           replicate (min 0 (length (calls_of t cs))) True @
           replicate (length (calls_of t cs) - 0) False"
        using Cons.IH [of rl1 0] Cons.prems(1) Cons.prems(2) rest 0 by simp
      then show ?thesis using run b ans cc 0 \<open>ok = False\<close> by simp
    next
      case (Suc k)
      then have "ok = True"
        and rl1: "rl1 = rl\<lparr>tenantTokens := (tenantTokens rl)(t \<mapsto> tokens_of rl t - 1)\<rparr>"
        using Allow_in_window [OF nw] a True Cons.prems(2) by auto
      have "tenantLastReset rl1 t = Some t0" "tokens_of rl1 t = int k"
        using rl1 Cons.prems(1,2) Suc by (auto simp: tokens_of_def)
      then have "answers_for t cs (fst (Allow_calls rl1 cs)) =
           replicate (min k (length (calls_of t cs))) True @
           replicate (length (calls_of t cs) - k) False"
        using Cons.IH [of rl1 k] rest by simp
      then show ?thesis using run b ans cc Suc \<open>ok = True\<close> by simp
    qed
  qed
qed

lemma NewServer_limiter: "s_rateLimiter (NewServer d) = New 10" "maxJobsPerMin (New n) = n"
  by (simp_all add: NewServer_def New_def)

text \<open>
  C6. For a limiter with \<open>maxJobsPerMin = 10\<close>, which is what \<open>NewServer\<close> builds, and
  any tenant: an allowed call leaves one token less than were available (10 after a lazy
  reset, the stored count otherwise). The first call after the window has elapsed (more
  than \<open>Minute\<close>, 60 seconds, since the last reset, or a tenant never seen) is allowed,
  leaves 9 of the 10 fresh tokens and restarts the window at that call's time. In a run
  that starts with such a call, whatever other tenants do in between, as long as the
  tenant's later calls are within 60 seconds of the first, its first ten calls are allowed
  and every further one, the 11th included, is rejected.
\<close>

theorem Allow_fixed_window:
  assumes "maxJobsPerMin rl = 10"
  shows "(fst (Allow rl now t) \<longrightarrow>
            tokens_of (snd (Allow rl now t)) t =
              (if window_elapsed rl now t then 10 else tokens_of rl t) - 1) \<and>
         (window_elapsed rl now t \<longrightarrow>
            Allow rl now t =
              (True, rl\<lparr>tenantTokens := (tenantTokens rl)(t \<mapsto> 9),
                         tenantLastReset := (tenantLastReset rl)(t \<mapsto> now)\<rparr>)) \<and>
         (window_elapsed rl now t \<and> (\<forall>u\<in>set (calls_of t cs). u - now \<le> Minute) \<longrightarrow>
            answers_for t ((t, now) # cs) (fst (Allow_calls rl ((t, now) # cs))) =
              replicate (min 10 (Suc (length (calls_of t cs)))) True @
              replicate (Suc (length (calls_of t cs)) - 10) False)"
proof -
  have reset: "Allow rl now t =
              (True, rl\<lparr>tenantTokens := (tenantTokens rl)(t \<mapsto> 9),
                         tenantLastReset := (tenantLastReset rl)(t \<mapsto> now)\<rparr>)"
    if "window_elapsed rl now t"
    using Allow_reset [OF that] assms by simp
  have consume: "tokens_of (snd (Allow rl now t)) t =
              (if window_elapsed rl now t then 10 else tokens_of rl t) - 1"
    if "fst (Allow rl now t)"
  proof (cases "window_elapsed rl now t")
    case True
    then show ?thesis using reset by (simp add: tokens_of_def)
  next
    case False
    then show ?thesis using that Allow_in_window [OF False]
      by (auto simp: tokens_of_def split: if_splits)
  qed
  have run: "answers_for t ((t, now) # cs) (fst (Allow_calls rl ((t, now) # cs))) =
              replicate (min 10 (Suc (length (calls_of t cs)))) True @
              replicate (Suc (length (calls_of t cs)) - 10) False"
    if w: "window_elapsed rl now t" and c: "\<forall>u\<in>set (calls_of t cs). u - now \<le> Minute"
  proof -
    let ?rl1 = "rl\<lparr>tenantTokens := (tenantTokens rl)(t \<mapsto> 9),
                   tenantLastReset := (tenantLastReset rl)(t \<mapsto> now)\<rparr>"
    have "tenantLastReset ?rl1 t = Some now" "tokens_of ?rl1 t = int 9"
      by (simp_all add: tokens_of_def)
    from window_answers [OF this c]
    have "answers_for t cs (fst (Allow_calls ?rl1 cs)) =
           replicate (min 9 (length (calls_of t cs))) True @
           replicate (length (calls_of t cs) - 9) False" .
    moreover have "answers_for t ((t, now) # cs) (fst (Allow_calls rl ((t, now) # cs))) =
           True # answers_for t cs (fst (Allow_calls ?rl1 cs))"
      using reset [OF w] by (simp add: answers_for_def split: prod.splits)
    ultimately show ?thesis by simp
  qed
  from reset consume run show ?thesis by blast
qed

subsection \<open>SubmitJob and the idempotency key\<close>

lemma idem_keys_append: "idem_keys (xs @ ys) = idem_keys xs @ idem_keys ys"
  by (induction xs) (auto split: option.splits)

lemma idem_keys_set: "k \<in> set (idem_keys rs) \<longleftrightarrow> (\<exists>r\<in>set rs. idempotency_key r = Some k)"
  by (induction rs) (auto split: option.splits)

lemma idem_keys_count:
  "length (filter (\<lambda>r. idempotency_key r = Some k) rs) = count_list (idem_keys rs) k"
  by (induction rs) (auto split: option.splits)

lemma distinct_count_one: "distinct ks \<Longrightarrow> k \<in> set ks \<Longrightarrow> count_list ks k = 1"
  by (induction ks) (auto simp: count_list_0_iff)

lemma find_key_None: "find (\<lambda>r. idempotency_key r = Some k) rs = None \<longleftrightarrow> k \<notin> set (idem_keys rs)"
  by (auto simp: find_None_iff idem_keys_set)

lemma GetJobByIdempotencyKey_Inr:
  assumes "GetJobByIdempotencyKey db k = Inr j"
  shows "fault db = None \<and> k \<in> set (idem_keys (jobs db))"
  using assms
  by (auto simp: GetJobByIdempotencyKey_def idem_keys_set find_Some_iff split: option.splits)

lemma GetJobByIdempotencyKey_Inl:
  assumes "GetJobByIdempotencyKey db k = Inl e" "fault db = None"
  shows "k \<notin> set (idem_keys (jobs db))"
proof -
  have "find (\<lambda>r. idempotency_key r = Some k) (jobs db) = None"
  proof (cases "find (\<lambda>r. idempotency_key r = Some k) (jobs db)")
    case None then show ?thesis .
  next
    case (Some r)
    then have "r \<in> set (jobs db)" by (auto simp: find_Some_iff)
    then have "find (\<lambda>x. row_id x = row_id r) (jobs db) \<noteq> None" by (auto simp: find_None_iff)
    then show ?thesis using assms Some
      by (auto simp: GetJobByIdempotencyKey_def GetJobByID_def split: option.splits)
  qed
  then show ?thesis by (simp add: find_key_None)
qed

lemma scanJob_insert_row:
  assumes "LeasedUntil job = None" "ErrorMessage job = []"
  shows "scanJob (insert_row job) = job"
  using assms by (simp add: scanJob_def insert_row_def nullString_def)

lemma admitted_fault: "admitted s req t \<Longrightarrow> fault (s_db s) = None"
  by (auto simp: admitted_def GetRunningJobsCount_def split: option.splits sum.splits)

lemma SubmitJob_admitted:
  assumes "req_TenantID req \<noteq> []" "req_Payload req \<noteq> []" "admitted s req t_allow"
  shows "SubmitJob s ''POST'' (Some req) t_allow tn jn now =
     (case (if req_IdempotencyKey req \<noteq> []
            then GetJobByIdempotencyKey (s_db s) (req_IdempotencyKey req)
            else Inl ErrNoRows) of
        Inr existingJob \<Rightarrow>
          (\<lparr> code = StatusOK, body = JobBody existingJob \<rparr>,
           s\<lparr>s_rateLimiter := snd (Allow (s_rateLimiter s) t_allow (req_TenantID req))\<rparr>)
      | Inl e \<Rightarrow>
          (if ID (newJob req tn jn now) \<in> set (map row_id (jobs (s_db s)))
           then (http_Error ''Failed to create job'' StatusInternalServerError,
                 s\<lparr>s_rateLimiter := snd (Allow (s_rateLimiter s) t_allow (req_TenantID req))\<rparr>)
           else (\<lparr> code = StatusCreated, body = JobBody (newJob req tn jn now) \<rparr>,
                 s\<lparr>s_rateLimiter := snd (Allow (s_rateLimiter s) t_allow (req_TenantID req)),
                    s_db := (s_db s)\<lparr>jobs := jobs (s_db s) @ [insert_row (newJob req tn jn now)]\<rparr>\<rparr>)))"
proof -
  have f: "fault (s_db s) = None" using assms(3) by (rule admitted_fault)
  obtain rl where a: "Allow (s_rateLimiter s) t_allow (req_TenantID req) = (True, rl)"
    using assms(3)
    by (cases "Allow (s_rateLimiter s) t_allow (req_TenantID req)") (auto simp: admitted_def)
  obtain n where c: "GetRunningJobsCount (s_db s) (req_TenantID req) = Inr n" "n < 5"
    using assms(3) by (auto simp: admitted_def split: sum.splits)
  show ?thesis
    using assms(1,2) f a c
    by (simp add: SubmitJob_def Let_def InsertJob_def split: sum.splits)
qed

lemma GetJobByID_appended:
  assumes "fault db = None" "row_id r \<notin> set (map row_id (jobs db))"
  shows "GetJobByID (db\<lparr>jobs := jobs db @ [r]\<rparr>) (row_id r) = Inr (scanJob r)"
proof -
  have "find (\<lambda>x. row_id x = row_id r) (jobs db) = None" using assms(2) by (simp add: find_id_None)
  then show ?thesis using assms(1) by (simp add: GetJobByID_def find_append)
qed

lemma GetJobByIdempotencyKey_appended:
  assumes "fault db = None" "row_id r \<notin> set (map row_id (jobs db))"
    "k \<notin> set (idem_keys (jobs db))" "idempotency_key r = Some k"
  shows "GetJobByIdempotencyKey (db\<lparr>jobs := jobs db @ [r]\<rparr>) k = Inr (scanJob r)"
proof -
  have "find (\<lambda>x. idempotency_key x = Some k) (jobs db) = None"
    using assms(3) by (simp add: find_key_None)
  then have "find (\<lambda>x. idempotency_key x = Some k) (jobs db @ [r]) = Some r"
    using assms(4) by (simp add: find_append)
  then show ?thesis
    using assms(1) GetJobByID_appended [OF assms(1,2)] by (simp add: GetJobByIdempotencyKey_def)
qed

lemma newJob_fields:
  "LeasedUntil (newJob req tn jn now) = None" "ErrorMessage (newJob req tn jn now) = []"
  "IdempotencyKey (newJob req tn jn now) = req_IdempotencyKey req"
  "RetryCount (newJob req tn jn now) = 0"
  "MaxRetries (newJob req tn jn now) = (if req_MaxRetries req = 0 then 3 else req_MaxRetries req)"
  "Status (newJob req tn jn now) = StatusPending"
  by (simp_all add: newJob_def Let_def)

lemma SubmitJob_idempotent_steps:
  assumes "req_TenantID req \<noteq> []" and "req_Payload req \<noteq> []"
    and "req_IdempotencyKey req \<noteq> []"
    and "admitted s req t_allow"
    and "SubmitJob s ''POST'' (Some req) t_allow tn jn now = (resp, s1)"
  shows "(\<forall>existing. GetJobByIdempotencyKey (s_db s) (req_IdempotencyKey req) = Inr existing \<longrightarrow>
            resp = \<lparr> code = StatusOK, body = JobBody existing \<rparr> \<and> s_db s1 = s_db s) \<and>
         (\<forall>j. body resp = JobBody j \<longrightarrow>
            (admitted s1 req t_allow2 \<longrightarrow>
               fst (SubmitJob s1 ''POST'' (Some req) t_allow2 tn2 jn2 now2) =
                 \<lparr> code = StatusOK, body = JobBody j \<rparr> \<and>
               s_db (snd (SubmitJob s1 ''POST'' (Some req) t_allow2 tn2 jn2 now2)) = s_db s1) \<and>
            (idem_unique (s_db s) \<longrightarrow>
               idem_unique (s_db s1) \<and>
               length (rows_with_key (s_db s1) (req_IdempotencyKey req)) = 1))"
proof -
  let ?k = "req_IdempotencyKey req"
  let ?job = "newJob req tn jn now"
  have f: "fault (s_db s) = None" using assms(4) by (rule admitted_fault)
  note sub = SubmitJob_admitted [OF assms(1,2,4), of tn jn now]
  show ?thesis
  proof (cases "GetJobByIdempotencyKey (s_db s) ?k")
    case (Inr e)
    then have r: "resp = \<lparr> code = StatusOK, body = JobBody e \<rparr>" and d: "s_db s1 = s_db s"
      using sub assms(3,5) by auto
    have k: "?k \<in> set (idem_keys (jobs (s_db s)))"
      using GetJobByIdempotencyKey_Inr [OF Inr] by simp
    have again: "admitted s1 req t_allow2 \<Longrightarrow>
               fst (SubmitJob s1 ''POST'' (Some req) t_allow2 tn2 jn2 now2) =
                 \<lparr> code = StatusOK, body = JobBody e \<rparr> \<and>
               s_db (snd (SubmitJob s1 ''POST'' (Some req) t_allow2 tn2 jn2 now2)) = s_db s1"
      using SubmitJob_admitted [OF assms(1,2), of s1 t_allow2 tn2 jn2 now2] Inr d assms(3)
      by simp
    have one: "idem_unique (s_db s) \<Longrightarrow> length (rows_with_key (s_db s1) ?k) = 1"
      using k d by (simp add: idem_unique_def rows_with_key_def idem_keys_count distinct_count_one)
    show ?thesis using Inr r d again one by auto
  next
    case (Inl err)
    have nk: "?k \<notin> set (idem_keys (jobs (s_db s)))"
      using GetJobByIdempotencyKey_Inl [OF Inl f] .
    show ?thesis
    proof (cases "ID ?job \<in> set (map row_id (jobs (s_db s)))")
      case True
      then have "resp = http_Error ''Failed to create job'' StatusInternalServerError"
        using sub Inl assms(3,5) by auto
      then show ?thesis using Inl by (simp add: http_Error_def)
    next
      case False
      let ?r = "insert_row ?job"
      have r: "resp = \<lparr> code = StatusCreated, body = JobBody ?job \<rparr>"
        and d: "s_db s1 = (s_db s)\<lparr>jobs := jobs (s_db s) @ [?r]\<rparr>"
        using sub Inl assms(3,5) False by auto
      have rk: "idempotency_key ?r = Some ?k"
        using assms(3) by (simp add: insert_row_def nullString_def newJob_fields)
      have rid: "row_id ?r \<notin> set (map row_id (jobs (s_db s)))"
        using False by (simp add: insert_row_def)
      have look: "GetJobByIdempotencyKey (s_db s1) ?k = Inr ?job"
        using GetJobByIdempotencyKey_appended [OF f rid nk rk] d
        by (simp add: scanJob_insert_row newJob_fields)
      have again: "admitted s1 req t_allow2 \<Longrightarrow>
               fst (SubmitJob s1 ''POST'' (Some req) t_allow2 tn2 jn2 now2) =
                 \<lparr> code = StatusOK, body = JobBody ?job \<rparr> \<and>
               s_db (snd (SubmitJob s1 ''POST'' (Some req) t_allow2 tn2 jn2 now2)) = s_db s1"
        using SubmitJob_admitted [OF assms(1,2), of s1 t_allow2 tn2 jn2 now2] look assms(3)
        by simp
      have keys: "idem_keys (jobs (s_db s1)) = idem_keys (jobs (s_db s)) @ [?k]"
        using d rk by (simp add: idem_keys_append)
      have uniq: "idem_unique (s_db s) \<Longrightarrow> idem_unique (s_db s1)"
        using keys nk by (simp add: idem_unique_def)
      have one: "idem_unique (s_db s) \<Longrightarrow> length (rows_with_key (s_db s1) ?k) = 1"
        using uniq keys
        by (simp add: idem_unique_def rows_with_key_def idem_keys_count distinct_count_one)
      show ?thesis using Inl r again uniq one by auto
    qed
  qed
qed

lemma SubmitJob_admitted_limiter:
  assumes "req_TenantID req \<noteq> []" "req_Payload req \<noteq> []" "admitted s req t_allow"
    and "SubmitJob s ''POST'' (Some req) t_allow tn jn now = (resp, s1)"
  shows "s_rateLimiter s1 = snd (Allow (s_rateLimiter s) t_allow (req_TenantID req))"
  using SubmitJob_admitted [OF assms(1,2,3), of tn jn now] assms(4)
  by (auto split: sum.splits if_splits)

text \<open>
  C4, as the code has it. \<open>SubmitJob\<close> runs the rate gate and the concurrency gate before
  it looks the idempotency key up. For a submission with a non-empty key that both gates
  admit: if a job with the key exists, the answer is 200 with that job as stored and the
  table is unchanged. Consequently, after a submission that answered with a job, an
  admitted submission of the same request answers 200 with the same job and leaves the
  table unchanged; and a table with at most one row per key keeps that property and has
  exactly one row with the submitted key. Whatever the answer, the admitted submission has
  taken one token of the tenant from the rate gate.
\<close>

theorem SubmitJob_idempotent_when_admitted:
  assumes "req_TenantID req \<noteq> []" and "req_Payload req \<noteq> []"
    and "req_IdempotencyKey req \<noteq> []"
    and "admitted s req t_allow"
    and "SubmitJob s ''POST'' (Some req) t_allow tn jn now = (resp, s1)"
  shows "(\<forall>existing. GetJobByIdempotencyKey (s_db s) (req_IdempotencyKey req) = Inr existing \<longrightarrow>
            resp = \<lparr> code = StatusOK, body = JobBody existing \<rparr> \<and> s_db s1 = s_db s) \<and>
         (\<forall>j. body resp = JobBody j \<longrightarrow>
            (admitted s1 req t_allow2 \<longrightarrow>
               fst (SubmitJob s1 ''POST'' (Some req) t_allow2 tn2 jn2 now2) =
                 \<lparr> code = StatusOK, body = JobBody j \<rparr> \<and>
               s_db (snd (SubmitJob s1 ''POST'' (Some req) t_allow2 tn2 jn2 now2)) = s_db s1) \<and>
            (idem_unique (s_db s) \<longrightarrow>
               idem_unique (s_db s1) \<and>
               length (rows_with_key (s_db s1) (req_IdempotencyKey req)) = 1)) \<and>
         tokens_of (s_rateLimiter s1) (req_TenantID req) =
           (if window_elapsed (s_rateLimiter s) t_allow (req_TenantID req)
            then maxJobsPerMin (s_rateLimiter s)
            else tokens_of (s_rateLimiter s) (req_TenantID req)) - 1"
proof -
  have "fst (Allow (s_rateLimiter s) t_allow (req_TenantID req))"
    using assms(4) by (simp add: admitted_def)
  then have "tokens_of (snd (Allow (s_rateLimiter s) t_allow (req_TenantID req))) (req_TenantID req) =
           (if window_elapsed (s_rateLimiter s) t_allow (req_TenantID req)
            then maxJobsPerMin (s_rateLimiter s)
            else tokens_of (s_rateLimiter s) (req_TenantID req)) - 1"
    by (rule Allow_consumes)
  then have tok: "tokens_of (s_rateLimiter s1) (req_TenantID req) =
           (if window_elapsed (s_rateLimiter s) t_allow (req_TenantID req)
            then maxJobsPerMin (s_rateLimiter s)
            else tokens_of (s_rateLimiter s) (req_TenantID req)) - 1"
    using SubmitJob_admitted_limiter [OF assms(1,2,4,5)] by simp
  from SubmitJob_idempotent_steps [OF assms, of t_allow2 tn2 jn2 now2] tok
  show ?thesis by blast
qed

subsection \<open>The worker's outcome transitions\<close>

lemma wrap64_id: "- (2 ^ 63) \<le> n \<Longrightarrow> n < 2 ^ 63 \<Longrightarrow> wrap64 n = n"
  by (simp add: wrap64_def)

lemma find_pk:
  assumes "distinct (map row_id rows)" "r \<in> set rows"
  shows "find (\<lambda>x. row_id x = row_id r) rows = Some r"
  using assms by (induction rows) auto

lemma find_map_upd:
  assumes "\<And>x. row_id (g x) = row_id x"
  shows "find (\<lambda>x. row_id x = i) (map (\<lambda>x. if row_id x = i then g x else x) rows) =
         map_option g (find (\<lambda>x. row_id x = i) rows)"
  using assms by (induction rows) auto

lemma GetJobByID_after_update:
  assumes "fault db = None" "find (\<lambda>x. row_id x = i) (jobs db) = Some r"
    and "\<And>x. row_id (g x) = row_id x"
  shows "GetJobByID (db\<lparr>jobs := map (\<lambda>x. if row_id x = i then g x else x) (jobs db)\<rparr>) i =
         Inr (scanJob (g r))"
  using assms(1,2) by (simp add: GetJobByID_def find_map_upd [of g, OF assms(3)])

text \<open>
  C2, as the code has it. When a claimed job's execution fails, the worker increments the
  in-memory \<open>RetryCount\<close> by one and persists a transition to failed with the lease
  cleared. If the incremented count reaches \<open>MaxRetries\<close>, the persisted error message
  is "Max retries exceeded - moved to DLQ". Otherwise the persisted row has the
  incremented \<open>retry_count\<close>, which is below \<open>max_retries\<close>, and the fixed message
  "Job failed - will retry" (\<open>executeJob\<close> returns no message of its own).
\<close>

theorem processNextJob_failure_transition:
  assumes "primary_key db"
    and "LeaseJob loc tie db t_lease (now + leaseDuration) = (Inr job, db1)"
    and "\<not> executeJob unix_done"
    and "- (2 ^ 63) \<le> RetryCount job" and "RetryCount job < 2 ^ 63 - 1"
  shows "\<exists>j. GetJobByID (processNextJob loc tie db now t_lease unix_done t_upd) (ID job) = Inr j \<and>
              Status j = StatusFailed \<and> LeasedUntil j = None \<and> MaxRetries j = MaxRetries job \<and>
              (if RetryCount job + 1 \<ge> MaxRetries job
               then ErrorMessage j = ''Max retries exceeded - moved to DLQ''
               else RetryCount j = RetryCount job + 1 \<and> RetryCount j < MaxRetries j \<and>
                    ErrorMessage j = ''Job failed - will retry'')"
proof -
  let ?lease = "\<lambda>x. x\<lparr>status := StatusRunning, leased_until := Some (now + leaseDuration),
                        updated_at := t_lease\<rparr>"
  from LeaseJob_Inr [OF assms(2)]
  obtain r where f: "fault db = None" and r: "r \<in> set (jobs db)"
    and job: "job = leased_job r (now + leaseDuration)"
    and db1: "db1 = db\<lparr>jobs := map (\<lambda>x. if row_id x = row_id r then ?lease x else x) (jobs db)\<rparr>"
    by blast
  have pk: "distinct (map row_id (jobs db))" using assms(1) by (simp add: primary_key_def)
  have w: "wrap64 (RetryCount job + 1) = RetryCount job + 1"
    using assms(4,5) by (simp add: wrap64_id)
  have idj: "ID job = row_id r" "RetryCount job = retry_count r" "MaxRetries job = max_retries r"
    using job by (simp_all add: leased_job_def)
  have f1: "fault db1 = None" using f db1 by simp
  have fnd: "find (\<lambda>x. row_id x = row_id r) (jobs db1) = Some (?lease r)"
    using find_pk [OF pk r] db1 by (simp add: find_map_upd)
  show ?thesis
  proof (cases "RetryCount job + 1 \<ge> MaxRetries job")
    case True
    let ?g = "\<lambda>x. x\<lparr>status := StatusFailed, updated_at := t_upd, leased_until := None,
                      error_message := nullString ''Max retries exceeded - moved to DLQ''\<rparr>"
    have "processNextJob loc tie db now t_lease unix_done t_upd =
        db1\<lparr>jobs := map (\<lambda>x. if row_id x = row_id r then ?g x else x) (jobs db1)\<rparr>"
      using processNextJob_leased [OF assms(2)] assms(3) w True f1 idj
      by (simp add: UpdateJobStatus_def)
    then have "GetJobByID (processNextJob loc tie db now t_lease unix_done t_upd) (ID job) =
        Inr (scanJob (?g (?lease r)))"
      using GetJobByID_after_update [OF f1 fnd, of ?g] idj by simp
    then show ?thesis using True idj by (simp add: scanJob_def nullString_def)
  next
    case False
    let ?g = "\<lambda>x. x\<lparr>status := StatusFailed, retry_count := RetryCount job + 1,
                      updated_at := t_upd, leased_until := None,
                      error_message := Some ''Job failed - will retry''\<rparr>"
    have "processNextJob loc tie db now t_lease unix_done t_upd =
        db1\<lparr>jobs := map (\<lambda>x. if row_id x = row_id r then ?g x else x) (jobs db1)\<rparr>"
      using processNextJob_leased [OF assms(2)] assms(3) w False f1 idj
      by (simp add: UpdateJobForRetry_def)
    then have "GetJobByID (processNextJob loc tie db now t_lease unix_done t_upd) (ID job) =
        Inr (scanJob (?g (?lease r)))"
      using GetJobByID_after_update [OF f1 fnd, of ?g] idj by simp
    then show ?thesis using False idj by (simp add: scanJob_def)
  qed
qed

subsection \<open>The bound on the retry count\<close>


lemma SubmitJob_db:
  "s_db (snd (SubmitJob s m decoded ta tn jn now)) = s_db s \<or>
   (\<exists>req. decoded = Some req \<and>
      s_db (snd (SubmitJob s m decoded ta tn jn now)) =
        (s_db s)\<lparr>jobs := jobs (s_db s) @ [insert_row (newJob req tn jn now)]\<rparr>)"
  by (auto simp: SubmitJob_def Let_def InsertJob_def http_Error_def
           split: option.splits sum.splits prod.splits if_splits)





subsection \<open>Re-claiming a job whose lease has expired\<close>

text \<open>
  When the timestamps compared carry the zone offset of \<open>now\<close>, a running row whose
  \<open>leased_until\<close> lies before \<open>now\<close> is eligible again, so a claim at \<open>now\<close> succeeds,
  and it claims this row when every other eligible row is younger. When this row is the
  one claimed, the table changes in this row only, and only in \<open>status\<close>,
  \<open>leased_until\<close> and \<open>updated_at\<close>.
\<close>

lemma expired_lease_reclaim_same_zone:
  assumes "fault db = None" and "primary_key db" and "same_zone loc db now"
    and "r \<in> set (jobs db)" and "status r = StatusRunning"
    and "leased_until r = Some l" and "l < now"
  shows "spec_eligible now r \<and>
         (\<exists>job. fst (LeaseJob loc tie db now leaseUntil) = Inr job) \<and>
         ((\<forall>x\<in>set (jobs db). x \<noteq> r \<longrightarrow> spec_eligible now x \<longrightarrow> created_at r < created_at x) \<longrightarrow>
            fst (LeaseJob loc tie db now leaseUntil) = Inr (leased_job r leaseUntil)) \<and>
         (fst (LeaseJob loc tie db now leaseUntil) = Inr (leased_job r leaseUntil) \<longrightarrow>
            snd (LeaseJob loc tie db now leaseUntil) =
              db\<lparr>jobs := map (\<lambda>x. if x = r
                                   then r\<lparr>status := StatusRunning,
                                          leased_until := Some leaseUntil,
                                          updated_at := now\<rparr>
                                   else x) (jobs db)\<rparr> \<and>
            GetJobByID (snd (LeaseJob loc tie db now leaseUntil)) (row_id r) =
              Inr ((scanJob r)\<lparr>Status := StatusRunning, LeasedUntil := Some leaseUntil,
                                UpdatedAt := now\<rparr>))"
proof -
  have pk: "distinct (map row_id (jobs db))" using assms(2) by (simp add: primary_key_def)
  have el: "spec_eligible now r" using assms(5,6,7) by (simp add: spec_eligible_def)
  then have ex: "\<exists>x\<in>set (jobs db). spec_eligible now x" using assms(4) by blast
  from LeaseJob_some_pk [OF assms(1,2,3) ex, of tie leaseUntil]
  obtain c where c: "c \<in> set (jobs db)" "spec_eligible now c"
    "\<forall>x\<in>set (jobs db). spec_eligible now x \<longrightarrow> created_at c \<le> created_at x"
    and lj: "LeaseJob loc tie db now leaseUntil =
                   (Inr (leased_job c leaseUntil),
                    db\<lparr>jobs := map (\<lambda>x. if x = c
                                         then c\<lparr>status := StatusRunning,
                                                leased_until := Some leaseUntil,
                                                updated_at := now\<rparr>
                                         else x) (jobs db)\<rparr>)"
    by auto
  have some: "\<exists>job. fst (LeaseJob loc tie db now leaseUntil) = Inr job" using lj by simp
  have oldest: "(\<forall>x\<in>set (jobs db). x \<noteq> r \<longrightarrow> spec_eligible now x \<longrightarrow> created_at r < created_at x) \<Longrightarrow>
            fst (LeaseJob loc tie db now leaseUntil) = Inr (leased_job r leaseUntil)"
  proof -
    assume o: "\<forall>x\<in>set (jobs db). x \<noteq> r \<longrightarrow> spec_eligible now x \<longrightarrow> created_at r < created_at x"
    have "c = r"
    proof (rule ccontr)
      assume "c \<noteq> r"
      then have "created_at r < created_at c" using o c by blast
      moreover have "created_at c \<le> created_at r" using c(3) assms(4) el by blast
      ultimately show False by simp
    qed
    then show ?thesis using lj by simp
  qed
  have frame: "fst (LeaseJob loc tie db now leaseUntil) = Inr (leased_job r leaseUntil) \<Longrightarrow>
            snd (LeaseJob loc tie db now leaseUntil) =
              db\<lparr>jobs := map (\<lambda>x. if x = r
                                   then r\<lparr>status := StatusRunning,
                                          leased_until := Some leaseUntil,
                                          updated_at := now\<rparr>
                                   else x) (jobs db)\<rparr> \<and>
            GetJobByID (snd (LeaseJob loc tie db now leaseUntil)) (row_id r) =
              Inr ((scanJob r)\<lparr>Status := StatusRunning, LeasedUntil := Some leaseUntil,
                                UpdatedAt := now\<rparr>)"
  proof -
    assume "fst (LeaseJob loc tie db now leaseUntil) = Inr (leased_job r leaseUntil)"
    then have "row_id c = row_id r" using lj by (simp add: leased_job_def)
    then have cr: "c = r" using pk_row_eq [OF pk c(1) assms(4)] by simp
    have m: "map (\<lambda>x. if x = r then r\<lparr>status := StatusRunning, leased_until := Some leaseUntil,
                                         updated_at := now\<rparr> else x) (jobs db) =
             map (\<lambda>x. if row_id x = row_id r
                        then x\<lparr>status := StatusRunning, leased_until := Some leaseUntil,
                               updated_at := now\<rparr> else x) (jobs db)"
      using pk_row_eq [OF pk _ assms(4)] by auto
    have "GetJobByID (db\<lparr>jobs := map (\<lambda>x. if row_id x = row_id r
                        then x\<lparr>status := StatusRunning, leased_until := Some leaseUntil,
                               updated_at := now\<rparr> else x) (jobs db)\<rparr>) (row_id r) =
          Inr (scanJob (r\<lparr>status := StatusRunning, leased_until := Some leaseUntil,
                               updated_at := now\<rparr>))"
      using GetJobByID_after_update [OF assms(1) find_pk [OF pk assms(4)],
               of "\<lambda>x. x\<lparr>status := StatusRunning, leased_until := Some leaseUntil,
                               updated_at := now\<rparr>"] by simp
    then have g: "GetJobByID (db\<lparr>jobs := map (\<lambda>x. if row_id x = row_id r
                        then x\<lparr>status := StatusRunning, leased_until := Some leaseUntil,
                               updated_at := now\<rparr> else x) (jobs db)\<rparr>) (row_id r) =
          Inr ((scanJob r)\<lparr>Status := StatusRunning, LeasedUntil := Some leaseUntil,
                            UpdatedAt := now\<rparr>)"
      by (simp add: scanJob_def)
    have s: "snd (LeaseJob loc tie db now leaseUntil) =
              db\<lparr>jobs := map (\<lambda>x. if x = r
                                   then r\<lparr>status := StatusRunning,
                                          leased_until := Some leaseUntil,
                                          updated_at := now\<rparr>
                                   else x) (jobs db)\<rparr>"
      unfolding lj cr [symmetric] by simp
    show ?thesis unfolding s unfolding m using g by simp
  qed
  from el some oldest frame show ?thesis by blast
qed

subsection \<open>The metrics\<close>

lemma status_partition:
  assumes "\<forall>r\<in>set rows. status r \<in> {StatusPending, StatusRunning, StatusDone, StatusFailed}"
  shows "length (filter (\<lambda>r. status r = StatusPending) rows) +
         length (filter (\<lambda>r. status r = StatusRunning) rows) +
         length (filter (\<lambda>r. status r = StatusDone) rows) +
         length (filter (\<lambda>r. status r = StatusFailed \<and> retry_count r < max_retries r) rows) +
         length (filter (\<lambda>r. status r = StatusFailed \<and> retry_count r \<ge> max_retries r) rows) =
         length rows"
  using assms by (induction rows) (auto simp: status_consts_distinct)

text \<open>
  C10. On a working store \<open>failed_jobs\<close> counts exactly the rows with status failed and
  \<open>retry_count < max_retries\<close>, \<open>dlq_jobs\<close> exactly the rows with status failed and
  \<open>retry_count \<ge> max_retries\<close>, and \<open>total_jobs\<close> all rows. When every row carries one
  of the four status constants (the only values the program writes), the five counts
  pending, running, completed, failed and dead-lettered add up to the total.
\<close>

theorem GetMetrics_partition:
  "(fault db = None \<longrightarrow>
      TotalJobs (GetMetrics db) = int (length (jobs db)) \<and>
      FailedJobs (GetMetrics db) =
        int (length (filter (\<lambda>r. status r = StatusFailed \<and> retry_count r < max_retries r) (jobs db))) \<and>
      DLQJobs (GetMetrics db) =
        int (length (filter (\<lambda>r. status r = StatusFailed \<and> retry_count r \<ge> max_retries r) (jobs db)))) \<and>
   (statuses_ok db \<longrightarrow>
      PendingJobs (GetMetrics db) + RunningJobs (GetMetrics db) + CompletedJobs (GetMetrics db) +
      FailedJobs (GetMetrics db) + DLQJobs (GetMetrics db) = TotalJobs (GetMetrics db))"
proof -
  let ?sum = "PendingJobs (GetMetrics db) + RunningJobs (GetMetrics db) +
      CompletedJobs (GetMetrics db) + FailedJobs (GetMetrics db) + DLQJobs (GetMetrics db)"
  have counts: "fault db = None \<longrightarrow>
      TotalJobs (GetMetrics db) = int (length (jobs db)) \<and>
      FailedJobs (GetMetrics db) =
        int (length (filter (\<lambda>r. status r = StatusFailed \<and> retry_count r < max_retries r) (jobs db))) \<and>
      DLQJobs (GetMetrics db) =
        int (length (filter (\<lambda>r. status r = StatusFailed \<and> retry_count r \<ge> max_retries r) (jobs db)))"
    by (simp add: GetMetrics_def count_where_def)
  have part: "?sum = TotalJobs (GetMetrics db)" if ok: "statuses_ok db"
  proof (cases "fault db")
    case None
    then show ?thesis
      using status_partition [of "jobs db"] ok
      by (simp add: GetMetrics_def count_where_def statuses_ok_def list_all_iff)
  next
    case (Some e)
    then show ?thesis by (simp add: GetMetrics_def count_where_def)
  qed
  from counts part show ?thesis by blast
qed

subsection \<open>Invariants of the table\<close>

text \<open>
  The primary key and the four status values are kept by every submission and every poll
  of a worker, so they hold in every state the program reaches from an empty table.
\<close>

lemma primary_key_SubmitJob:
  assumes "primary_key (s_db s)"
  shows "primary_key (s_db (snd (SubmitJob s m decoded ta tn jn now)))"
proof -
  have "s_db (snd (SubmitJob s m decoded ta tn jn now)) = s_db s \<or>
        (\<exists>j. ID j \<notin> set (map row_id (jobs (s_db s))) \<and>
           s_db (snd (SubmitJob s m decoded ta tn jn now)) =
             (s_db s)\<lparr>jobs := jobs (s_db s) @ [insert_row j]\<rparr>)"
    by (auto simp: SubmitJob_def Let_def InsertJob_def http_Error_def
             split: option.splits sum.splits prod.splits if_splits)
  then show ?thesis using assms by (auto simp: primary_key_def insert_row_def)
qed

lemma map_upd_row_id:
  assumes "\<And>x. row_id (g x) = row_id x"
  shows "map row_id (map (\<lambda>x. if row_id x = i then g x else x) rows) = map row_id rows"
  using assms by (induction rows) auto

lemma processNextJob_row_ids:
  "map row_id (jobs (processNextJob loc tie db now t_lease u t_upd)) = map row_id (jobs db)"
proof (cases "LeaseJob loc tie db t_lease (now + leaseDuration)")
  case (Pair res db1)
  show ?thesis
  proof (cases res)
    case (Inl e)
    then show ?thesis
      using processNextJob_not_leased [of loc tie db t_lease now e u t_upd] Pair by simp
  next
    case (Inr job)
    then have l: "LeaseJob loc tie db t_lease (now + leaseDuration) = (Inr job, db1)" using Pair by simp
    from LeaseJob_Inr [OF l]
    obtain r :: row where f: "fault db = None"
      and db1: "db1 = db\<lparr>jobs := map (\<lambda>x. if row_id x = row_id r
                 then x\<lparr>status := StatusRunning, leased_until := Some (now + leaseDuration),
                        updated_at := t_lease\<rparr> else x) (jobs db)\<rparr>"
      by auto
    have ids1: "map row_id (jobs db1) = map row_id (jobs db)"
      using db1 by (simp add: map_upd_row_id del: map_map)
    have f1: "fault db1 = None" using f db1 by simp
    have a: "\<And>i st msg. map row_id (jobs (snd (UpdateJobStatus db1 t_upd i st msg))) =
                 map row_id (jobs db1)"
      using f1 by (simp add: UpdateJobStatus_def map_upd_row_id del: map_map)
    have b: "\<And>i n msg. map row_id (jobs (snd (UpdateJobForRetry db1 t_upd i n msg))) =
                 map row_id (jobs db1)"
      using f1 by (simp add: UpdateJobForRetry_def map_upd_row_id del: map_map)
    show ?thesis unfolding processNextJob_leased [OF l] using a b ids1 by simp
  qed
qed

lemma primary_key_processNextJob:
  "primary_key db \<Longrightarrow> primary_key (processNextJob loc tie db now t_lease u t_upd)"
  by (simp add: primary_key_def processNextJob_row_ids)

lemma statuses_ok_iff:
  "statuses_ok db \<longleftrightarrow>
     (\<forall>r\<in>set (jobs db). status r \<in> {StatusPending, StatusRunning, StatusDone, StatusFailed})"
  by (simp add: statuses_ok_def list_all_iff)

lemma statuses_ok_SubmitJob:
  assumes "statuses_ok (s_db s)"
  shows "statuses_ok (s_db (snd (SubmitJob s m decoded ta tn jn now)))"
  using SubmitJob_db [of s m decoded ta tn jn now] assms
  by (auto simp: statuses_ok_iff insert_row_def newJob_fields)

lemma statuses_ok_processNextJob:
  assumes "statuses_ok db"
  shows "statuses_ok (processNextJob loc tie db now t_lease u t_upd)"
proof (cases "LeaseJob loc tie db t_lease (now + leaseDuration)")
  case (Pair res db1)
  show ?thesis
  proof (cases res)
    case (Inl e)
    then show ?thesis
      using processNextJob_not_leased [of loc tie db t_lease now e u t_upd] Pair assms by simp
  next
    case (Inr job)
    then have l: "LeaseJob loc tie db t_lease (now + leaseDuration) = (Inr job, db1)" using Pair by simp
    from LeaseJob_Inr [OF l]
    obtain r :: row where f: "fault db = None"
      and db1: "db1 = db\<lparr>jobs := map (\<lambda>x. if row_id x = row_id r
                 then x\<lparr>status := StatusRunning, leased_until := Some (now + leaseDuration),
                        updated_at := t_lease\<rparr> else x) (jobs db)\<rparr>"
      by auto
    have f1: "fault db1 = None" using f db1 by simp
    have ok1: "statuses_ok db1" using assms db1 by (auto simp: statuses_ok_iff)
    have a: "\<And>i msg. statuses_ok (snd (UpdateJobStatus db1 t_upd i StatusDone msg))"
      "\<And>i msg. statuses_ok (snd (UpdateJobStatus db1 t_upd i StatusFailed msg))"
      using f1 ok1 by (auto simp: UpdateJobStatus_def statuses_ok_iff)
    have b: "\<And>i n msg. statuses_ok (snd (UpdateJobForRetry db1 t_upd i n msg))"
      using f1 ok1 by (auto simp: UpdateJobForRetry_def statuses_ok_iff)
    show ?thesis unfolding processNextJob_leased [OF l] using a b by simp
  qed
qed

text \<open>
  A row that is failed with \<open>retry_count \<ge> max_retries\<close> is never the row that
  \<open>LeaseJob\<close> claims, and a claim of another row leaves it as it is.
\<close>

lemma LeaseJob_skips_dead_lettered:
  assumes "primary_key db" "r \<in> set (jobs db)"
    and "status r = StatusFailed" "retry_count r \<ge> max_retries r"
  shows "fst (LeaseJob loc tie db now lu) \<noteq> Inr (leased_job r lu) \<and> r \<in> set (jobs (snd (LeaseJob loc tie db now lu)))"
proof (cases "LeaseJob loc tie db now lu")
  case (Pair res db1)
  show ?thesis
  proof (cases res)
    case (Inl e)
    then have "db1 = db" using Pair LeaseJob_Inl [of loc tie db now lu e] by simp
    then show ?thesis using Pair Inl assms(2) by simp
  next
    case (Inr job)
    then have l: "LeaseJob loc tie db now lu = (Inr job, db1)" using Pair by simp
    from LeaseJob_Inr [OF l]
    obtain c where c: "c \<in> set (jobs db)" "lease_where loc now c" "job = leased_job c lu"
      and db1: "db1 = db\<lparr>jobs := map (\<lambda>x. if row_id x = row_id c
                 then x\<lparr>status := StatusRunning, leased_until := Some lu,
                        updated_at := now\<rparr> else x) (jobs db)\<rparr>"
      by blast
    have pk: "distinct (map row_id (jobs db))" using assms(1) by (simp add: primary_key_def)
    have nr: "\<not> lease_where loc now r"
      using assms(3,4) by (simp add: lease_where_def status_consts_distinct)
    then have "c \<noteq> r" using c(2) by auto
    then have ne: "row_id c \<noteq> row_id r" using pk_row_eq [OF pk c(1) assms(2)] by simp
    then have "leased_job c lu \<noteq> leased_job r lu" by (auto simp: leased_job_def)
    moreover have "r \<in> set (jobs db1)" using db1 assms(2) ne by (auto simp: image_iff)
    ultimately show ?thesis using l c(3) by simp
  qed
qed

section \<open>Concrete runs\<close>

text \<open>
  The scenario of the specification, run on the model: the submission creates the job, and
  the first two failed executions each write the incremented \<open>retry_count\<close>.
\<close>

lemmas eval_defs =
  SubmitJob_def Allow_def Let_def tokens_of_def GetRunningJobsCount_def
  GetJobByIdempotencyKey_def GetJobByID_def InsertJob_def insert_row_def newJob_def
  Sprintf_d_def nullString_def scanJob_def http_Error_def
  StatusOK_def StatusCreated_def StatusTooManyRequests_def
  StatusPending_def StatusRunning_def StatusFailed_def StatusDone_def
  Sub_def Minute_def Second_def maxDuration_def minDuration_def
  NewServer_def New_def

lemmas worker_defs =
  processNextJob_def LeaseJob_def lease_where_def oldest_rows_def stamp_def offset_key_def
  utc_def leased_job_def leaseDuration_def
  executeJob_def wrap64_def UpdateJobStatus_def UpdateJobForRetry_def Let_def
  nullString_def Second_def
  StatusPending_def StatusRunning_def StatusFailed_def StatusDone_def

lemma scenario_submit:
  "SubmitJob ex_srv0 ''POST'' (Some ex_req) 1000 1001 1002 1003 =
     (\<lparr> code = 201, body = JobBody ex_job \<rparr>, ex_srv1)"
  by (simp add: ex_srv0_def ex_req_def ex_job_def ex_srv1_def scen_db_def scen_row_def eval_defs)

lemma scenario_first_failure:
  "processNextJob utc 0 (scen_db ''pending'' 0 1003 None) 2000 2001 5 2002 =
     scen_db ''failed'' 1 2002 (Some ''Job failed - will retry'')"
  by (simp add: scen_db_def scen_row_def worker_defs)

lemma scenario_second_failure:
  "processNextJob utc 0 (scen_db ''failed'' 1 2002 (Some ''Job failed - will retry'')) 3000 3001 5 3002 =
     scen_db ''failed'' 2 3002 (Some ''Job failed - will retry'')"
  by (simp add: scen_db_def scen_row_def worker_defs)

text \<open>
  C1. The claim does not hold of the code. In the scenario of the specification, the third
  failed execution takes the branch that the source logs as "moved to DLQ", but that
  branch calls \<open>UpdateJobStatus\<close>, which does not write \<open>retry_count\<close>: the row stays
  at \<open>retry_count = 2 < 3 = max_retries\<close> with status failed. It is therefore still
  eligible, the next \<open>LeaseJob\<close> claims it again, and \<open>GetMetrics\<close> counts no
  dead-lettered job.
\<close>

theorem dead_lettered_job_claimed_again:
  "processNextJob loc tie (scen_db ''failed'' 2 3002 (Some ''Job failed - will retry''))
     4000 4001 5 4002 =
     scen_db ''failed'' 2 4002 (Some ''Max retries exceeded - moved to DLQ'') \<and>
   LeaseJob loc tie (scen_db ''failed'' 2 4002 (Some ''Max retries exceeded - moved to DLQ''))
     5001 5030 =
     (Inr \<lparr> ID = ''job-1002'', TenantID = ''t1'', Payload = ''p1'', Status = ''running'',
            IdempotencyKey = '''', RetryCount = 2, MaxRetries = 3, CreatedAt = 0,
            UpdatedAt = 0, LeasedUntil = Some 5030, ErrorMessage = '''',
            TraceID = ''trace-1001'' \<rparr>,
      \<lparr> jobs = [scen_row ''running'' 2 5001 (Some 5030) (Some ''Max retries exceeded - moved to DLQ'')],
        fault = None \<rparr>) \<and>
   DLQJobs (GetMetrics (scen_db ''failed'' 2 4002 (Some ''Max retries exceeded - moved to DLQ''))) = 0"
  by (simp add: scen_db_def scen_row_def worker_defs GetMetrics_def count_where_def)


text \<open>
  C2 fails as stated: after the third failed execution of the scenario the claimed job has
  \<open>RetryCount + 1 \<ge> MaxRetries\<close>, yet the persisted row has neither \<open>retry_count\<close>
  equal to \<open>max_retries\<close> nor the error message "max retries exceeded".
\<close>

theorem failure_transition_counterexample:
  "fst (LeaseJob utc 0 (scen_db ''failed'' 2 3002 (Some ''Job failed - will retry'')) 4001 (4000 + leaseDuration)) =
     Inr (leased_job (scen_row ''failed'' 2 3002 None (Some ''Job failed - will retry'')) (4000 + leaseDuration)) \<and>
   RetryCount (leased_job (scen_row ''failed'' 2 3002 None (Some ''Job failed - will retry'')) (4000 + leaseDuration)) + 1
     \<ge> MaxRetries (leased_job (scen_row ''failed'' 2 3002 None (Some ''Job failed - will retry'')) (4000 + leaseDuration)) \<and>
   \<not> executeJob 5 \<and>
   GetJobByID (processNextJob utc 0 (scen_db ''failed'' 2 3002 (Some ''Job failed - will retry'')) 4000 4001 5 4002)
     ''job-1002'' = Inr ex_dlq_job \<and>
   RetryCount ex_dlq_job \<noteq> MaxRetries ex_dlq_job \<and>
   ErrorMessage ex_dlq_job \<noteq> ''max retries exceeded''"
  by (simp add: scen_db_def scen_row_def worker_defs ex_dlq_job_def GetJobByID_def scanJob_def)

theorem processNextJob_failure_transition_witness:
  "primary_key (scen_db ''pending'' 0 1003 None) \<and>
   LeaseJob utc 0 (scen_db ''pending'' 0 1003 None) 2001 (2000 + leaseDuration) =
     (Inr (leased_job (scen_row ''pending'' 0 1003 None None) (2000 + leaseDuration)),
      \<lparr> jobs = [scen_row ''running'' 0 2001 (Some (2000 + leaseDuration)) None], fault = None \<rparr>) \<and>
   \<not> executeJob 5 \<and>
   GetJobByID (processNextJob utc 0 (scen_db ''pending'' 0 1003 None) 2000 2001 5 2002) ''job-1002'' =
     Inr (ex_job\<lparr>Status := ''failed'', RetryCount := 1, UpdatedAt := 2002,
                 ErrorMessage := ''Job failed - will retry''\<rparr>)"
proof -
  let ?db = "scen_db ''pending'' 0 1003 None"
  let ?job = "leased_job (scen_row ''pending'' 0 1003 None None) (2000 + leaseDuration)"
  let ?db1 = "\<lparr> jobs = [scen_row ''running'' 0 2001 (Some (2000 + leaseDuration)) None],
                 fault = None \<rparr>"
  have a: "primary_key ?db" by (simp add: primary_key_def scen_db_def)
  have b: "LeaseJob utc 0 ?db 2001 (2000 + leaseDuration) = (Inr ?job, ?db1)"
    by (simp add: scen_db_def scen_row_def LeaseJob_def lease_where_def oldest_rows_def
        stamp_def offset_key_def utc_def Let_def StatusPending_def StatusRunning_def)
  have c: "\<not> executeJob 5" by (simp add: executeJob_def)
  have d: "- (2 ^ 63) \<le> RetryCount ?job" "RetryCount ?job < 2 ^ 63 - 1"
    by (simp_all add: leased_job_def scen_row_def)
  from processNextJob_failure_transition [OF a b c d, of 2002]
  obtain j where j: "GetJobByID (processNextJob utc 0 ?db 2000 2001 5 2002) (ID ?job) = Inr j"
    "Status j = StatusFailed" "RetryCount j = 1" "ErrorMessage j = ''Job failed - will retry''"
    by (auto simp: leased_job_def scen_row_def)
  have "GetJobByID (processNextJob utc 0 ?db 2000 2001 5 2002) ''job-1002'' =
     Inr (ex_job\<lparr>Status := ''failed'', RetryCount := 1, UpdatedAt := 2002,
                 ErrorMessage := ''Job failed - will retry''\<rparr>)"
    by (simp add: scen_db_def scen_row_def worker_defs ex_job_def GetJobByID_def scanJob_def)
  with a b c j show ?thesis by simp
qed

text \<open>
  C4 fails as stated: a submission whose idempotency key already has a job is rejected
  with 429 when the tenant has no token left, and when it is admitted it has used up one
  of the tenant's tokens.
\<close>

theorem duplicate_submission_counterexample:
  "GetJobByIdempotencyKey (s_db ex_srv_spent) (req_IdempotencyKey ex_req) = Inr ex_job \<and>
   SubmitJob ex_srv_spent ''POST'' (Some ex_req) 2000 2001 2002 2003 =
     (\<lparr> code = 429, body = ErrorText ''Rate limit exceeded'' \<rparr>, ex_srv_spent) \<and>
   GetJobByIdempotencyKey (s_db ex_srv1) (req_IdempotencyKey ex_req) = Inr ex_job \<and>
   fst (SubmitJob ex_srv1 ''POST'' (Some ex_req) 2000 2001 2002 2003) =
     \<lparr> code = 200, body = JobBody ex_job \<rparr> \<and>
   tokens_of (s_rateLimiter ex_srv1) ''t1'' = 9 \<and>
   tokens_of (s_rateLimiter (snd (SubmitJob ex_srv1 ''POST'' (Some ex_req) 2000 2001 2002 2003))) ''t1'' = 8"
  by (simp add: ex_srv_spent_def ex_srv1_def ex_req_def ex_job_def scen_db_def scen_row_def eval_defs)

theorem SubmitJob_idempotent_when_admitted_witness:
  "req_TenantID ex_req \<noteq> [] \<and> req_Payload ex_req \<noteq> [] \<and> req_IdempotencyKey ex_req \<noteq> [] \<and>
   admitted ex_srv0 ex_req 1000 \<and>
   SubmitJob ex_srv0 ''POST'' (Some ex_req) 1000 1001 1002 1003 =
     (\<lparr> code = 201, body = JobBody ex_job \<rparr>, ex_srv1) \<and>
   admitted ex_srv1 ex_req 2000 \<and>
   GetJobByIdempotencyKey (s_db ex_srv1) (req_IdempotencyKey ex_req) = Inr ex_job \<and>
   fst (SubmitJob ex_srv1 ''POST'' (Some ex_req) 2000 2001 2002 2003) =
     \<lparr> code = StatusOK, body = JobBody ex_job \<rparr> \<and>
   s_db (snd (SubmitJob ex_srv1 ''POST'' (Some ex_req) 2000 2001 2002 2003)) = s_db ex_srv1 \<and>
   idem_unique (s_db ex_srv0) \<and> idem_unique (s_db ex_srv1) \<and>
   length (rows_with_key (s_db ex_srv1) (req_IdempotencyKey ex_req)) = 1"
proof -
  have r: "req_TenantID ex_req \<noteq> []" "req_Payload ex_req \<noteq> []" "req_IdempotencyKey ex_req \<noteq> []"
    by (simp_all add: ex_req_def)
  have a0: "admitted ex_srv0 ex_req 1000"
    by (simp add: admitted_def ex_srv0_def ex_req_def eval_defs)
  have a1: "admitted ex_srv1 ex_req 2000"
    by (simp add: admitted_def ex_srv1_def ex_req_def scen_db_def scen_row_def eval_defs)
  have u0: "idem_unique (s_db ex_srv0)" by (simp add: idem_unique_def ex_srv0_def NewServer_def)
  have look: "GetJobByIdempotencyKey (s_db ex_srv1) (req_IdempotencyKey ex_req) = Inr ex_job"
    by (simp add: ex_srv1_def ex_req_def ex_job_def scen_db_def scen_row_def eval_defs)
  note first = SubmitJob_idempotent_when_admitted [OF r a0 scenario_submit, of 2000 2001 2002 2003]
  note second = SubmitJob_idempotent_when_admitted [OF r a1 surjective_pairing]
  have s2: "fst (SubmitJob ex_srv1 ''POST'' (Some ex_req) 2000 2001 2002 2003) =
              \<lparr> code = StatusOK, body = JobBody ex_job \<rparr> \<and>
            s_db (snd (SubmitJob ex_srv1 ''POST'' (Some ex_req) 2000 2001 2002 2003)) = s_db ex_srv1"
    using first a1 by simp
  have s3: "idem_unique (s_db ex_srv1) \<and>
            length (rows_with_key (s_db ex_srv1) (req_IdempotencyKey ex_req)) = 1"
    using first u0 by simp
  have s4: "fst (SubmitJob ex_srv1 ''POST'' (Some ex_req) 2000 2001 2002 2003) =
              \<lparr> code = StatusOK, body = JobBody ex_job \<rparr>"
    using second [of 2001 2002 2003] look by simp
  from r a0 a1 scenario_submit look s2 s3 s4 u0 show ?thesis by simp
qed

theorem Allow_fixed_window_witness:
  "maxJobsPerMin (s_rateLimiter ex_srv0) = 10 \<and>
   window_elapsed (s_rateLimiter ex_srv0) 0 ''t1'' \<and>
   list_all (\<lambda>u. u - 0 \<le> Minute) (calls_of ''t1'' ex_calls) \<and>
   answers_for ''t1'' ((''t1'', 0) # ex_calls)
     (fst (Allow_calls (s_rateLimiter ex_srv0) ((''t1'', 0) # ex_calls))) =
     [True, True, True, True, True, True, True, True, True, True, False] \<and>
   maxJobsPerMin ex_limiter_old = 10 \<and>
   \<not> window_elapsed ex_limiter_old (1000 + Minute) ''t1'' \<and>
   \<not> fst (Allow ex_limiter_old (1000 + Minute) ''t1'') \<and>
   window_elapsed ex_limiter_old (1001 + Minute) ''t1'' \<and>
   fst (Allow ex_limiter_old (1001 + Minute) ''t1'') \<and>
   tokens_of (snd (Allow ex_limiter_old (1001 + Minute) ''t1'')) ''t1'' = 9 \<and>
   tenantLastReset (snd (Allow ex_limiter_old (1001 + Minute) ''t1'')) ''t1'' = Some (1001 + Minute)"
proof -
  let ?rl = "s_rateLimiter ex_srv0"
  have m: "maxJobsPerMin ?rl = 10" by (simp add: ex_srv0_def NewServer_limiter)
  have w: "window_elapsed ?rl 0 ''t1''"
    by (simp add: window_elapsed_def ex_srv0_def NewServer_def New_def)
  have c: "\<forall>u\<in>set (calls_of ''t1'' ex_calls). u - 0 \<le> Minute"
    by (simp add: calls_of_def ex_calls_def Minute_val)
  have n: "length (calls_of ''t1'' ex_calls) = 10"
    by (simp add: calls_of_def ex_calls_def)
  have run: "answers_for ''t1'' ((''t1'', 0) # ex_calls) (fst (Allow_calls ?rl ((''t1'', 0) # ex_calls))) =
     [True, True, True, True, True, True, True, True, True, True, False]"
  proof -
    have t: "answers_for ''t1'' ((''t1'', 0) # ex_calls)
               (fst (Allow_calls ?rl ((''t1'', 0) # ex_calls))) =
             replicate (min 10 (Suc (length (calls_of ''t1'' ex_calls)))) True @
             replicate (Suc (length (calls_of ''t1'' ex_calls)) - 10) False"
      using Allow_fixed_window [OF m, of 0 "''t1''" ex_calls] w c by blast
    show ?thesis unfolding t n by (simp add: numeral_eq_Suc)
  qed
  have m2: "maxJobsPerMin ex_limiter_old = 10" by (simp add: ex_limiter_old_def)
  have nw: "\<not> window_elapsed ex_limiter_old (1000 + Minute) ''t1''"
    and w2: "window_elapsed ex_limiter_old (1001 + Minute) ''t1''"
    by (simp_all add: window_elapsed_def ex_limiter_old_def)
  have rej: "\<not> fst (Allow ex_limiter_old (1000 + Minute) ''t1'')"
    using Allow_in_window [OF nw] by (simp add: ex_limiter_old_def tokens_of_def)
  have res: "fst (Allow ex_limiter_old (1001 + Minute) ''t1'') \<and>
   tokens_of (snd (Allow ex_limiter_old (1001 + Minute) ''t1'')) ''t1'' = 9 \<and>
   tenantLastReset (snd (Allow ex_limiter_old (1001 + Minute) ''t1'')) ''t1'' = Some (1001 + Minute)"
    using Allow_fixed_window [OF m2, of "1001 + Minute" "''t1''" "[]"] w2
    by (simp add: tokens_of_def)
  have c': "list_all (\<lambda>u. u - 0 \<le> Minute) (calls_of ''t1'' ex_calls)"
    using c by (simp add: list_all_iff)
  from m w c' run m2 nw rej w2 res show ?thesis by blast
qed



text \<open>
  C8. The claim does not hold of the code. \<open>LeaseJob\<close> compares \<open>leased_until\<close> with
  \<open>now\<close> as the texts the driver wrote, local time first. In a zone that goes from four
  to five hours west of UTC at 100000 seconds, a lease that ended at 98200 seconds was
  written as local time 83800 seconds with offset -04:00, and \<open>now\<close> = 100600 seconds,
  forty minutes after the lease ended, is written as local time 82600 seconds with offset
  -05:00. The text of \<open>leased_until\<close> is not below that of \<open>now\<close>, so the running
  job with the expired lease is not claimed: \<open>LeaseJob\<close> finds no row. In a zone without
  the change the same call on the same table claims the job.
\<close>

theorem expired_lease_not_reclaimed_after_zone_change:
  "jobs ex_dst_db =
     [mk_row ''job-1'' StatusRunning 0 3 (90000 * Second) (Some (98200 * Second))] \<and>
   98200 * Second < 100600 * Second \<and>
   spec_eligible (100600 * Second)
     (mk_row ''job-1'' StatusRunning 0 3 (90000 * Second) (Some (98200 * Second))) \<and>
   stamp ex_dst (98200 * Second) = (83800 * Second, 1, 240) \<and>
   stamp ex_dst (100600 * Second) = (82600 * Second, 1, 300) \<and>
   LeaseJob ex_dst 0 ex_dst_db (100600 * Second) (100630 * Second) = (Inl ErrNoRows, ex_dst_db) \<and>
   LeaseJob utc 0 ex_dst_db (100600 * Second) (100630 * Second) =
     (Inr \<lparr> ID = ''job-1'', TenantID = ''t1'', Payload = ''p1'', Status = ''running'',
            IdempotencyKey = '''', RetryCount = 0, MaxRetries = 3, CreatedAt = 0,
            UpdatedAt = 0, LeasedUntil = Some (100630 * Second), ErrorMessage = '''',
            TraceID = ''trace-1'' \<rparr>,
      \<lparr> jobs = [(mk_row ''job-1'' StatusRunning 0 3 (90000 * Second) (Some (100630 * Second)))
                 \<lparr> updated_at := 100600 * Second \<rparr>],
        fault = None \<rparr>)"
  by (simp add: ex_dst_db_def mk_row_def ex_dst_def spec_eligible_def worker_defs)

text \<open>
  C9. The claim does not hold of the code. \<open>GetJobStatus\<close> answers 404 "Job not found"
  for every error of \<open>GetJobByID\<close>: a failing store gives the same response as an unknown
  id, although the job asked for is in the table and is returned with 200 once the store
  works. On the same failing store \<open>SubmitJob\<close> answers 500 when its lookup of the
  running jobs fails.
\<close>

theorem store_failure_reported_as_not_found:
  "GetJobByID (s_db ex_srv_locked) ''job-1002'' = Inl (DriverError ''database is locked'') \<and>
   GetJobStatus ex_srv_locked ''job-1002'' = \<lparr> code = 404, body = ErrorText ''Job not found'' \<rparr> \<and>
   GetJobByID (s_db ex_srv1) ''job-7'' = Inl ErrNoRows \<and>
   GetJobStatus ex_srv1 ''job-7'' = \<lparr> code = 404, body = ErrorText ''Job not found'' \<rparr> \<and>
   jobs (s_db ex_srv_locked) = jobs (s_db ex_srv1) \<and>
   GetJobStatus ex_srv1 ''job-1002'' = \<lparr> code = 200, body = JobBody ex_job \<rparr> \<and>
   fst (SubmitJob ex_srv_locked ''POST'' (Some ex_req) 2000 2001 2002 2003) =
     \<lparr> code = 500, body = ErrorText ''Internal server error'' \<rparr>"
  by (simp add: ex_srv_locked_def ex_srv1_def ex_req_def ex_job_def scen_db_def scen_row_def
      GetJobStatus_def StatusNotFound_def StatusInternalServerError_def StatusOK_def eval_defs)

theorem GetMetrics_partition_witness:
  "fault ex_db = None \<and> statuses_ok ex_db \<and>
   TotalJobs (GetMetrics ex_db) = 3 \<and> FailedJobs (GetMetrics ex_db) = 0 \<and>
   DLQJobs (GetMetrics ex_db) = 1 \<and>
   PendingJobs (GetMetrics ex_db) + RunningJobs (GetMetrics ex_db) + CompletedJobs (GetMetrics ex_db) +
     FailedJobs (GetMetrics ex_db) + DLQJobs (GetMetrics ex_db) = TotalJobs (GetMetrics ex_db)"
proof -
  have a: "fault ex_db = None" by (simp add: ex_db_def)
  have b: "statuses_ok ex_db" by (simp add: statuses_ok_def ex_db_def mk_row_def)
  have c: "TotalJobs (GetMetrics ex_db) = 3 \<and> FailedJobs (GetMetrics ex_db) = 0 \<and>
           DLQJobs (GetMetrics ex_db) = 1"
    using GetMetrics_partition [of ex_db] a
    by (simp add: ex_db_def mk_row_def status_consts_distinct)
  have d: "PendingJobs (GetMetrics ex_db) + RunningJobs (GetMetrics ex_db) + CompletedJobs (GetMetrics ex_db) +
     FailedJobs (GetMetrics ex_db) + DLQJobs (GetMetrics ex_db) = TotalJobs (GetMetrics ex_db)"
    using GetMetrics_partition [of ex_db] b by blast
  from a b c d show ?thesis by simp
qed

end
